theory Spec2Isabelle
  imports Complex_Main "HOL-Library.Sublist"
begin

text \<open>
  A model of \<open>deb_installer_gui.py\<close>, the installer of Debian packages on Arch Linux:
  the worker thread (\<open>InstallWorker\<close>) that makes sure the converter \<open>debtap\<close> is
  there, converts the package in a temporary directory and installs the result with
  \<open>pacman\<close>, and the validation of the password in the window
  (\<open>DebInstallerGUI.get_sudo_password\<close>). Every call to the operating system takes its
  result from an environment, every exception is a value, and what the worker does to the
  outside (signals, child processes, writes to a child, removals) is kept in a trace.
\<close>

section \<open>Python string operations used by the installer\<close>

text \<open>
  A Python \<open>str\<close> is modelled as a \<open>string\<close>; a \<open>char\<close> stands for a code point
  below 256. \<open>is_space\<close> lists the code points below 256 that \<open>str.isspace\<close>
  accepts. \<open>lower\<close> folds the ASCII letters only: the lowered text is used by the
  source for substring tests against ASCII phrases and is never emitted.
\<close>

definition is_space :: "char \<Rightarrow> bool" where
  "is_space c = ((of_char c :: nat) \<in> {9, 10, 11, 12, 13, 28, 29, 30, 31, 32, 133, 160})"

definition rstrip :: "string \<Rightarrow> string" where
  "rstrip s = rev (dropWhile is_space (rev s))"

definition strip :: "string \<Rightarrow> string" where
  "strip s = dropWhile is_space (rstrip s)"

text \<open>An upper-case ASCII letter (65 to 90) moves up by 32, which sets bit 5 of its code.\<close>

definition lower_char :: "char \<Rightarrow> char" where
  "lower_char c =
     (if 65 \<le> (of_char c :: nat) \<and> (of_char c :: nat) \<le> 90
      then (case c of Char b0 b1 b2 b3 b4 b5 b6 b7 \<Rightarrow> Char b0 b1 b2 b3 b4 True b6 b7)
      else c)"

definition lower :: "string \<Rightarrow> string" where
  "lower s = map lower_char s"

text \<open>\<open>needle in hay\<close>, \<open>s.startswith(p)\<close>, \<open>s.endswith(x)\<close>.\<close>

definition contains :: "string \<Rightarrow> string \<Rightarrow> bool" where
  "contains hay needle = sublist needle hay"

definition startswith :: "string \<Rightarrow> string \<Rightarrow> bool" where
  "startswith s p = prefix p s"

definition endswith :: "string \<Rightarrow> string \<Rightarrow> bool" where
  "endswith s x = suffix x s"

text \<open>
  \<open>s.split(sep)\<close> for a one-character separator. The result is never an empty list
  (\<open>split_chr_not_Nil\<close> below), so \<open>s.split(sep)[0]\<close> is its head.
\<close>

fun split_chr :: "char \<Rightarrow> string \<Rightarrow> string list" where
  "split_chr c [] = [[]]"
| "split_chr c (x # xs) =
     (if x = c then [] # split_chr c xs
      else (case split_chr c xs of w # ws \<Rightarrow> (x # w) # ws | [] \<Rightarrow> [[x]]))"

definition split_lines :: "string \<Rightarrow> string list" where
  "split_lines s = split_chr (CHR 0x0A) s"

text \<open>\<open>os.path.basename\<close>: what follows the last slash.\<close>

definition basename :: "string \<Rightarrow> string" where
  "basename p = rev (takeWhile (\<lambda>c. c \<noteq> CHR ''/'') (rev p))"

text \<open>\<open>os.path.join(a, b)\<close> for two components.\<close>

definition path_join :: "string \<Rightarrow> string \<Rightarrow> string" where
  "path_join a b =
     (if startswith b ''/'' then b
      else if a = [] \<or> endswith a ''/'' then a @ b
      else a @ ''/'' @ b)"

section \<open>Time estimates (\<open>InstallWorker.run\<close>, lines 88 to 91)\<close>

text \<open>
  \<open>os.path.getsize\<close> returns the file's \<open>st_size\<close>, a number of bytes below
  \<open>2 ^ 63\<close>. Line 88 divides it by \<open>1024 * 1024\<close> with Python's true division of
  integers, which yields the double nearest to the quotient (ties to the even mantissa).
  The divisor is a power of two, so that double is the byte count rounded to 53
  significant bits, over \<open>2 ^ 20\<close>; a double is modelled by the real number it denotes.

  \<open>excess_bits n\<close> is the number of low bits of \<open>n\<close> that do not fit into 53 bits, and
  \<open>round53 n\<close> is \<open>n\<close> rounded to 53 significant bits, ties to even: it is \<open>n\<close> itself
  below \<open>2 ^ 53\<close>.
\<close>

function excess_bits :: "nat \<Rightarrow> nat" where
  "excess_bits n = (if n < 2 ^ 53 then 0 else Suc (excess_bits (n div 2)))"
  by pat_completeness auto
termination
  by (relation "measure (\<lambda>n. n)") auto

declare excess_bits.simps [simp del]

definition round53 :: "nat \<Rightarrow> nat" where
  "round53 n =
     (let k = excess_bits n; q = n div 2 ^ k; r = n mod 2 ^ k
      in (if 2 ^ k < 2 * r \<or> (2 * r = 2 ^ k \<and> odd q) then q + 1 else q) * 2 ^ k)"

definition file_size_mb :: "nat \<Rightarrow> real" where
  "file_size_mb bytes = real (round53 bytes) / (1024 * 1024)"

text \<open>
  Doubling and halving a double change its exponent only, and \<open>int(x)\<close> truncates towards
  zero; for sizes below \<open>2 ^ 63\<close> bytes none of these operations leaves the range of the
  doubles.
\<close>

definition py_int :: "real \<Rightarrow> int" where
  "py_int x = (if 0 \<le> x then \<lfloor>x\<rfloor> else \<lceil>x\<rceil>)"

definition conversion_time :: "nat \<Rightarrow> int" where
  "conversion_time bytes = max 10 (py_int (file_size_mb bytes * 2))"

definition install_time :: "nat \<Rightarrow> int" where
  "install_time bytes = max 5 (py_int (file_size_mb bytes * 0.5))"

definition total_estimated :: "nat \<Rightarrow> int" where
  "total_estimated bytes = conversion_time bytes + install_time bytes + 5"

section \<open>Errors, signals and effects\<close>

text \<open>
  An exception is a value. \<open>TimeoutExpired\<close> is the one exception class the source
  catches by name; every other exception carries its message.
\<close>

datatype error = TimeoutExpired | OtherError string

text \<open>
  How a call ends: it returns a value, it raises, or it never returns (a blocking read on
  a child that neither writes nor exits).
\<close>

datatype 'a outcome = Hangs | Raises error | Returns 'a

text \<open>
  The fixed and templated texts sent on \<open>console_output\<close> are named after what they say;
  the elapsed times some of them print are left out. Text that comes from a child's output
  or from a directory listing is kept as text (\<open>ConsoleLine\<close>).
\<close>

datatype run_notice =
    PackageName string | PackageSize nat | EstimatedTime int | Rule50 | Dash50
  | Step1 | DebtapSetupFailed | DebtapReady | Step2 | WorkingDirectory string
  | FileCopied | Step3 | ConvertingPkg string | RunningDebtap string
  | ConversionFailedAfter | ConversionCompleted | Generated string nat
  | Step4 | InstallingPkg string | RunningPacman | InstallationCompleted
  | SuccessRule | Success | TotalTime | InstallationFailedAfter
  | ErrorAfter error | CleaningUp | CleanupComplete

datatype debtap_notice =
    DebtapFound | DebtapNotFound | ErrorChecking error | AttemptingInstall
  | AutoInstalling | FoundManager string | CouldNotStart | InstallCompleted
  | InstallVerified | UpdatingDatabase | CouldNotStartUpdate | DatabaseUpdated
  | DatabaseIssues | UpdateManuallyHint | DatabaseUpdateError error
  | StillNotFound | ManagerFailed string int | ErrorWith string error
  | AllManagersFailed | InstallManually | HintYay | HintDebtapU | EmptyLine
  | ManagersChecked | ManagerAvailable string | ManagerNotFound string

datatype conv_notice =
    DetectedName string | ConversionTimedOut | DebtapFailed int
  | NoPackageGenerated | FilesInTemp | FoundGenerated string | ConvException error

datatype inst_notice =
    RunningSudo "string list" | InstCouldNotStart | AutoAnswered | PackageInstalled
  | InstallFailedCode int | TipConflicts | TipDependencies | TipSignature
  | TipDiskSpace | InstException error

datatype status =
    CheckingForDebtap | PreparingWorkspace | CopyingPackageFile
  | ConvertingPackage int | InstallingPackage nat | InstallationDone

datatype time_note =
    EstimatedTimeNote int | CheckCompleted | FileCopiedNote
  | ConversionCompletedNote | TotalTimeNote

datatype final_message =
    SetupFailedMsg | ConvertFailedMsg | InstalledMsg | InstallFailedMsg | ErrorMsg error

datatype event =
    RunNote run_notice | DebtapNote debtap_notice | ConvNote conv_notice
  | InstNote inst_notice | ConsoleLine string
  | ProgressUpdate status | ProgressValue nat | TimeUpdate time_note
  | Finished bool final_message

text \<open>
  What the worker does to the outside, in order: a signal emitted, a child process
  started with an argument vector (\<open>subprocess.run\<close>, \<open>subprocess.Popen\<close>), text
  written to the current child's input, the child killed, a directory tree removed.
\<close>

datatype action = Emit event | Exec "string list" | Stdin string | Kill | Rmtree string

section \<open>The worker, the file system and the child processes\<close>

text \<open>
  The file system holds the directories that exist, each with its listing in the order
  \<open>os.listdir\<close> enumerates it.
\<close>

type_synonym fsys = "string \<Rightarrow> string list option"

record wstate =
  deb_file_path :: string
  sudo_password :: "string option"
  temp_dir :: "string option"
  cwd :: string
  fs :: fsys
  trace :: "action list"

text \<open>
  A child started by \<open>run_sudo_command\<close>, as the reading loops see it. Each element of
  \<open>steps\<close> is one iteration of \<open>while True\<close>: what \<open>readline()\<close> returns, whether
  a write to the child's input succeeds at that moment, and what \<open>poll()\<close> returns
  (\<open>None\<close> while the child runs, its exit status afterwards). The loop stops at the first
  step whose poll is an exit status; a list that ends before is a child that is never seen
  to exit. \<open>remaining\<close> is what \<open>stdout.read()\<close> returns after the exit, and
  \<open>effect\<close> is what the child did to the directories.
\<close>

record proc =
  pw_write :: "error option"
  steps :: "(string \<times> bool \<times> int option) list"
  remaining :: string
  effect :: "fsys \<Rightarrow> fsys"

text \<open>
  The converter child, as \<open>communicate(input, timeout)\<close> sees it: \<open>finishes_after\<close> is
  the time in seconds after which it has exited and closed its output.
\<close>

record conv_child =
  spawn_error :: "error option"
  comm_error :: "error option"
  finishes_after :: "real option"
  stdout :: string
  returncode :: int
  changes :: "fsys \<Rightarrow> fsys"

text \<open>
  The results of the operating-system calls of one run. The \<open>which\<close> probes are told
  apart by where the source makes them: the first check for the converter, the check of a
  backend manager's executable, the re-check for the converter after a manager's install
  (by manager name), and the final listing of the managers.
\<close>

record env =
  getsize :: "string \<Rightarrow> error + nat"
  which_debtap :: "error + int"
  which_mgr :: "string \<Rightarrow> error + int"
  which_verify :: "string \<Rightarrow> error + int"
  which_diag :: "string \<Rightarrow> error + int"
  popen :: "string list \<Rightarrow> error + proc"
  mkdtemp_dir :: string
  mkdtemp_name :: "error + string"
  copy2 :: "error option"
  debtap_run :: conv_child
  rmtree_fails :: bool

abbreviation NL :: char where
  "NL \<equiv> CHR 0x0A"

definition act :: "action \<Rightarrow> wstate \<Rightarrow> wstate" where
  "act a s = s\<lparr>trace := trace s @ [a]\<rparr>"

definition acts :: "action list \<Rightarrow> wstate \<Rightarrow> wstate" where
  "acts as s = s\<lparr>trace := trace s @ as\<rparr>"

definition emit :: "event \<Rightarrow> wstate \<Rightarrow> wstate" where
  "emit ev s = act (Emit ev) s"

definition emits :: "event list \<Rightarrow> wstate \<Rightarrow> wstate" where
  "emits evs s = acts (map Emit evs) s"

section \<open>\<open>InstallWorker.run_sudo_command\<close>\<close>

text \<open>
  Returns \<open>None\<close> when no password is held. Otherwise starts \<open>sudo -S\<close> followed by
  the command, with the child's error stream merged into its output stream, and writes the
  password and a newline to the child's input.
\<close>

definition run_sudo_command :: "env \<Rightarrow> string list \<Rightarrow> wstate \<Rightarrow> proc option outcome \<times> wstate" where
  "run_sudo_command e cmd s =
     (case sudo_password s of
        None \<Rightarrow> (Returns None, s)
      | Some pw \<Rightarrow>
          if pw = [] then (Returns None, s)
          else
            (let sudo_cmd = [''sudo'', ''-S''] @ cmd;
                 s1 = act (Exec sudo_cmd) s
             in case popen e sudo_cmd of
                  Inl err \<Rightarrow> (Raises err, s1)
                | Inr p \<Rightarrow>
                    (case pw_write p of
                       Some err \<Rightarrow> (Raises err, s1)
                     | None \<Rightarrow> (Returns (Some p), act (Stdin (pw @ [NL])) s1))))"

section \<open>\<open>InstallWorker.install_debtap\<close> and \<open>check_debtap\<close>\<close>

text \<open>
  The two reading loops of \<open>install_debtap\<close> (lines 274 to 288 and 308 to 321) have the
  same body; the list \<open>install_output\<close> that the first one fills is never read.
  \<open>redacted_line\<close> is what the loop does with the result of \<open>readline()\<close>,
  \<open>redacted_rest\<close> what it does with \<open>stdout.read()\<close> after the exit.
\<close>

definition redacted_line :: "string \<Rightarrow> action list" where
  "redacted_line line =
     (if line \<noteq> [] then
        (let l = rstrip line
         in if l \<noteq> [] \<and> \<not> contains (lower l) ''password''
            then [Emit (ConsoleLine (''  '' @ l))] else [])
      else [])"

definition redacted_rest :: "string \<Rightarrow> action list" where
  "redacted_rest rest =
     (if rest \<noteq> [] then
        concat (map (\<lambda>line. if strip line \<noteq> [] \<and> \<not> contains (lower line) ''password''
                             then [Emit (ConsoleLine (''  '' @ rstrip line))] else [])
                    (split_lines rest))
      else [])"

fun stream_redacted :: "(string \<times> bool \<times> int option) list \<Rightarrow> string \<Rightarrow> action list \<times> int option" where
  "stream_redacted [] rest = ([], None)"
| "stream_redacted ((line, w, None) # later) rest =
     (case stream_redacted later rest of (as, r) \<Rightarrow> (redacted_line line @ as, r))"
| "stream_redacted ((line, w, Some rc) # later) rest =
     (redacted_line line @ redacted_rest rest, Some rc)"

definition package_managers :: "(string list \<times> string) list" where
  "package_managers =
     [([''yay'', ''-S'', ''--noconfirm'', ''debtap''], ''yay''),
      ([''paru'', ''-S'', ''--noconfirm'', ''debtap''], ''paru''),
      ([''pamac'', ''install'', ''--no-confirm'', ''debtap''], ''pamac'')]"

text \<open>
  Lines 299 to 331: the refresh of the converter's database after a verified install.
  Whatever happens to it, \<open>install_debtap\<close> returns \<open>True\<close> afterwards.
\<close>

definition update_database :: "env \<Rightarrow> wstate \<Rightarrow> bool outcome \<times> wstate" where
  "update_database e s0 =
     (let s1 = emit (DebtapNote UpdatingDatabase) s0
      in case run_sudo_command e [''debtap'', ''-u''] s1 of
           (Raises err, s2) \<Rightarrow> (Returns True, emit (DebtapNote (DatabaseUpdateError err)) s2)
         | (Hangs, s2) \<Rightarrow> (Hangs, s2)
         | (Returns None, s2) \<Rightarrow> (Returns True, emit (DebtapNote CouldNotStartUpdate) s2)
         | (Returns (Some p), s2) \<Rightarrow>
             (case stream_redacted (steps p) (remaining p) of
                (as, None) \<Rightarrow> (Hangs, acts as s2)
              | (as, Some rc) \<Rightarrow>
                  (let s3 = (acts as s2)\<lparr>fs := effect p (fs s2)\<rparr>
                   in if rc = 0 then (Returns True, emit (DebtapNote DatabaseUpdated) s3)
                      else (Returns True,
                            emits [DebtapNote DatabaseIssues, DebtapNote UpdateManuallyHint] s3))))"

text \<open>
  One iteration of the loop over the managers (lines 257 to 341). The result
  \<open>Returns None\<close> is \<open>continue\<close> (or the end of the body), \<open>Returns (Some b)\<close> is
  \<open>return b\<close>. Every exception of the body is caught, reported and followed by
  \<open>continue\<close>.
\<close>

definition error_with :: "string \<Rightarrow> error \<Rightarrow> wstate \<Rightarrow> bool option outcome \<times> wstate" where
  "error_with manager_name err s = (Returns None, emit (DebtapNote (ErrorWith manager_name err)) s)"

definition verify_install :: "env \<Rightarrow> string \<Rightarrow> wstate \<Rightarrow> bool option outcome \<times> wstate" where
  "verify_install e manager_name s0 =
     (let s1 = emit (DebtapNote InstallCompleted) s0;
          s2 = act (Exec [''which'', ''debtap'']) s1
      in case which_verify e manager_name of
           Inl err \<Rightarrow> error_with manager_name err s2
         | Inr v \<Rightarrow>
             if v = 0 then
               (case update_database e (emit (DebtapNote InstallVerified) s2) of
                  (Returns b, s3) \<Rightarrow> (Returns (Some b), s3)
                | (Hangs, s3) \<Rightarrow> (Hangs, s3)
                | (Raises err, s3) \<Rightarrow> error_with manager_name err s3)
             else (Returns None, emit (DebtapNote StillNotFound) s2))"

definition try_manager :: "env \<Rightarrow> string list \<times> string \<Rightarrow> wstate \<Rightarrow> bool option outcome \<times> wstate" where
  "try_manager e m s0 =
     (case m of (cmd, manager_name) \<Rightarrow>
        (case cmd of
           [] \<Rightarrow> error_with manager_name (OtherError ''list index out of range'') s0
         | exe # _ \<Rightarrow>
             (let s1 = act (Exec [''which'', exe]) s0
              in case which_mgr e exe of
                   Inl err \<Rightarrow> error_with manager_name err s1
                 | Inr found \<Rightarrow>
                     if found \<noteq> 0 then (Returns None, s1)
                     else
                       (case run_sudo_command e cmd (emit (DebtapNote (FoundManager manager_name)) s1) of
                          (Raises err, s2) \<Rightarrow> error_with manager_name err s2
                        | (Hangs, s2) \<Rightarrow> (Hangs, s2)
                        | (Returns None, s2) \<Rightarrow> (Returns None, emit (DebtapNote CouldNotStart) s2)
                        | (Returns (Some p), s2) \<Rightarrow>
                            (case stream_redacted (steps p) (remaining p) of
                               (as, None) \<Rightarrow> (Hangs, acts as s2)
                             | (as, Some rc) \<Rightarrow>
                                 (let s3 = (acts as s2)\<lparr>fs := effect p (fs s2)\<rparr>
                                  in if rc = 0 then verify_install e manager_name s3
                                     else (Returns None,
                                           emit (DebtapNote (ManagerFailed manager_name rc)) s3)))))))"

fun try_managers :: "env \<Rightarrow> (string list \<times> string) list \<Rightarrow> wstate \<Rightarrow> bool option outcome \<times> wstate" where
  "try_managers e [] s = (Returns None, s)"
| "try_managers e (m # ms) s =
     (case try_manager e m s of
        (Returns None, s1) \<Rightarrow> try_managers e ms s1
      | r \<Rightarrow> r)"

text \<open>
  Lines 350 to 355: \<open>subprocess.run(..., check=True)\<close> raises on a non-zero status, and
  the bare \<open>except\<close> reports the manager as not found.
\<close>

definition report_manager :: "env \<Rightarrow> string list \<times> string \<Rightarrow> wstate \<Rightarrow> wstate" where
  "report_manager e m s =
     (case m of (cmd, name) \<Rightarrow>
        (case cmd of
           [] \<Rightarrow> emit (DebtapNote (ManagerNotFound name)) s
         | exe # _ \<Rightarrow>
             (let s1 = act (Exec [''which'', exe]) s
              in case which_diag e exe of
                   Inr rc \<Rightarrow> if rc = 0 then emit (DebtapNote (ManagerAvailable name)) s1
                             else emit (DebtapNote (ManagerNotFound name)) s1
                 | Inl err \<Rightarrow> emit (DebtapNote (ManagerNotFound name)) s1)))"

definition install_debtap :: "env \<Rightarrow> wstate \<Rightarrow> bool outcome \<times> wstate" where
  "install_debtap e s0 =
     (case try_managers e package_managers (emit (DebtapNote AutoInstalling) s0) of
        (Returns (Some b), s1) \<Rightarrow> (Returns b, s1)
      | (Returns None, s1) \<Rightarrow>
          (Returns False,
           fold (report_manager e) package_managers
             (emits [DebtapNote AllManagersFailed, DebtapNote InstallManually, DebtapNote HintYay,
                     DebtapNote HintDebtapU, DebtapNote EmptyLine, DebtapNote ManagersChecked] s1))
      | (Hangs, s1) \<Rightarrow> (Hangs, s1)
      | (Raises err, s1) \<Rightarrow> (Raises err, s1))"

text \<open>
  \<open>check_debtap\<close>: both \<open>return self.install_debtap()\<close> stand inside the \<open>try\<close>, so an
  exception out of the first would be caught and followed by the second.
\<close>

definition check_debtap :: "env \<Rightarrow> wstate \<Rightarrow> bool outcome \<times> wstate" where
  "check_debtap e s0 =
     (let s1 = act (Exec [''which'', ''debtap'']) s0;
          retry = (\<lambda>err s. install_debtap e
                     (emits [DebtapNote (ErrorChecking err), DebtapNote AttemptingInstall] s))
      in case which_debtap e of
           Inl err \<Rightarrow> retry err s1
         | Inr rc \<Rightarrow>
             if rc = 0 then (Returns True, emit (DebtapNote DebtapFound) s1)
             else
               (case install_debtap e (emit (DebtapNote DebtapNotFound) s1) of
                  (Raises err, s2) \<Rightarrow> retry err s2
                | r \<Rightarrow> r))"

section \<open>\<open>InstallWorker.convert_deb_package\<close>\<close>

text \<open>
  The current directory is a property of the worker's process. \<open>os.getcwd\<close>,
  \<open>os.chdir\<close> and \<open>os.listdir\<close> raise when the directory is not there;
  \<open>os.chdir(None)\<close> raises too.
\<close>

definition getcwd :: "wstate \<Rightarrow> error + string" where
  "getcwd s = (if fs s (cwd s) \<noteq> None then Inr (cwd s) else Inl (OtherError ''FileNotFoundError''))"

definition chdir :: "string option \<Rightarrow> wstate \<Rightarrow> error + wstate" where
  "chdir p s =
     (case p of
        None \<Rightarrow> Inl (OtherError ''TypeError'')
      | Some d \<Rightarrow> if fs s d \<noteq> None then Inr (s\<lparr>cwd := d\<rparr>) else Inl (OtherError ''FileNotFoundError''))"

definition listdir :: "string option \<Rightarrow> wstate \<Rightarrow> error + string list" where
  "listdir p s =
     (case p of
        None \<Rightarrow> Inl (OtherError ''TypeError'')
      | Some d \<Rightarrow> (case fs s d of None \<Rightarrow> Inl (OtherError ''FileNotFoundError'') | Some names \<Rightarrow> Inr names))"

text \<open>
  \<open>process.communicate(input, timeout)\<close>: raises \<open>TimeoutExpired\<close> when the child has
  not finished after \<open>timeout\<close> seconds.
\<close>

definition communicate :: "conv_child \<Rightarrow> real \<Rightarrow> error + string \<times> int" where
  "communicate c timeout =
     (case comm_error c of
        Some err \<Rightarrow> Inl err
      | None \<Rightarrow>
          (case finishes_after c of
             None \<Rightarrow> Inl TimeoutExpired
           | Some t \<Rightarrow> if t \<le> timeout then Inr (stdout c, returncode c) else Inl TimeoutExpired))"

text \<open>Lines 395 to 398: the converter's output, without blank lines and \<open>==>\<close> lines.\<close>

definition converter_lines :: "string \<Rightarrow> event list" where
  "converter_lines out =
     map ConsoleLine
       (filter (\<lambda>line. line \<noteq> [] \<and> \<not> startswith line ''==>'') (map strip (split_lines out)))"

definition is_package_file :: "string \<Rightarrow> bool" where
  "is_package_file file = (endswith file ''.pkg.tar.zst'' \<or> endswith file ''.pkg.tar.xz'')"

text \<open>Lines 411 to 429: after a zero exit status, find the generated package.\<close>

definition find_package :: "wstate \<Rightarrow> string option outcome \<times> wstate" where
  "find_package s =
     (case listdir (temp_dir s) s of
        Inl err \<Rightarrow> (Raises err, s)
      | Inr files \<Rightarrow>
          (let pkg_files = filter is_package_file files
           in case pkg_files of
                [] \<Rightarrow>
                  (let s1 = emits [ConvNote NoPackageGenerated, ConvNote FilesInTemp] s
                   in case listdir (temp_dir s1) s1 of
                        Inl err \<Rightarrow> (Raises err, s1)
                      | Inr again \<Rightarrow>
                          (Returns None, emits (map (\<lambda>file. ConsoleLine (''  - '' @ file)) again) s1))
              | pkg_file # _ \<Rightarrow>
                  (let s1 = emit (ConvNote (FoundGenerated pkg_file)) s
                   in case temp_dir s1 of
                        None \<Rightarrow> (Raises (OtherError ''TypeError''), s1)
                      | Some d \<Rightarrow> (Returns (Some (path_join d pkg_file)), s1))))"

text \<open>
  Lines 392 to 409, once the child is started: the inner \<open>try\<close> around
  \<open>communicate\<close> catches the timeout only; the way back to the original directory stands
  after it.
\<close>

definition await_converter :: "env \<Rightarrow> string \<Rightarrow> string \<Rightarrow> wstate \<Rightarrow> string option outcome \<times> wstate" where
  "await_converter e original_cwd default_answers s0 =
     (let s1 = (act (Stdin default_answers) s0)\<lparr>fs := changes (debtap_run e) (fs s0)\<rparr>
      in case communicate (debtap_run e) 300 of
           Inl TimeoutExpired \<Rightarrow>
             (Returns None, emit (ConvNote ConversionTimedOut) (act Kill s1))
         | Inl (OtherError msg) \<Rightarrow> (Raises (OtherError msg), s1)
         | Inr (out, rc) \<Rightarrow>
             (let s2 = emits (converter_lines out) s1
              in case chdir (Some original_cwd) s2 of
                   Inl err \<Rightarrow> (Raises err, s2)
                 | Inr s3 \<Rightarrow>
                     if rc \<noteq> 0 then (Returns None, emit (ConvNote (DebtapFailed rc)) s3)
                     else find_package s3))"

definition convert_body :: "env \<Rightarrow> string \<Rightarrow> wstate \<Rightarrow> string option outcome \<times> wstate" where
  "convert_body e temp_deb_path s0 =
     (case getcwd s0 of
        Inl err \<Rightarrow> (Raises err, s0)
      | Inr original_cwd \<Rightarrow>
          (case chdir (temp_dir s0) s0 of
             Inl err \<Rightarrow> (Raises err, s0)
           | Inr s1 \<Rightarrow>
               (let deb_filename = basename temp_deb_path;
                    package_name = hd (split_chr (CHR ''_'') deb_filename);
                    s2 = emit (ConvNote (DetectedName package_name)) s1;
                    cmd = [''debtap'', ''-Q'', deb_filename];
                    s3 = act (Exec cmd) s2
                in case spawn_error (debtap_run e) of
                     Some err \<Rightarrow> (Raises err, s3)
                   | None \<Rightarrow> await_converter e original_cwd (package_name @ [NL, NL, NL]) s3)))"

definition convert_deb_package :: "env \<Rightarrow> string \<Rightarrow> wstate \<Rightarrow> string option outcome \<times> wstate" where
  "convert_deb_package e temp_deb_path s0 =
     (case convert_body e temp_deb_path s0 of
        (Raises err, s1) \<Rightarrow> (Returns None, emit (ConvNote (ConvException err)) s1)
      | r \<Rightarrow> r)"

section \<open>\<open>InstallWorker.install_arch_package\<close>\<close>

definition confirmation_phrases :: "string list" where
  "confirmation_phrases =
     [''proceed with installation'', ''continue?'', ''[y/n]'', ''replace'', ''conflict'']"

definition is_prompt :: "string \<Rightarrow> bool" where
  "is_prompt line = list_ex (\<lambda>phrase. contains (lower line) phrase) confirmation_phrases"

text \<open>
  Lines 453 to 472: what the loop does with the result of \<open>readline()\<close>. The actions
  come with the lines appended to \<open>output_lines\<close>. A write that raises is swallowed by
  the bare \<open>except\<close>, and the note after it is not emitted.
\<close>

definition answered_line :: "string \<Rightarrow> bool \<Rightarrow> action list \<times> string list" where
  "answered_line line w =
     (if line \<noteq> [] then
        (let l = rstrip line
         in ([Emit (ConsoleLine l)] @
             (if is_prompt l then
                (if w then [Stdin (''y'' @ [NL]), Emit (InstNote AutoAnswered)] else [])
              else []),
             [l]))
      else ([], []))"

text \<open>Lines 477 to 482: the output left after the exit is logged, never answered.\<close>

definition install_rest :: "string \<Rightarrow> action list \<times> string list" where
  "install_rest rest =
     (if rest \<noteq> [] then
        (let kept = filter (\<lambda>line. strip line \<noteq> []) (split_lines rest)
         in (map (\<lambda>line. Emit (ConsoleLine (rstrip line))) kept, kept))
      else ([], []))"

fun stream_install ::
  "(string \<times> bool \<times> int option) list \<Rightarrow> string \<Rightarrow> (action list \<times> string list) \<times> int option" where
  "stream_install [] rest = (([], []), None)"
| "stream_install ((line, w, None) # later) rest =
     (case stream_install later rest of
        ((as, ls), r) \<Rightarrow> ((fst (answered_line line w) @ as, snd (answered_line line w) @ ls), r))"
| "stream_install ((line, w, Some rc) # later) rest =
     ((fst (answered_line line w) @ fst (install_rest rest),
       snd (answered_line line w) @ snd (install_rest rest)), Some rc)"

text \<open>\<open>'\n'.join(lines)\<close>.\<close>

fun join_lines :: "string list \<Rightarrow> string" where
  "join_lines [] = []"
| "join_lines [l] = l"
| "join_lines (l # ls) = l @ [NL] @ join_lines ls"

definition failure_tip :: "string list \<Rightarrow> event list" where
  "failure_tip output_lines =
     (let output_text = lower (join_lines output_lines)
      in if contains output_text ''conflicting files'' then [InstNote TipConflicts]
         else if contains output_text ''dependency'' then [InstNote TipDependencies]
         else if contains output_text ''signature'' then [InstNote TipSignature]
         else if contains output_text ''disk space'' \<or> contains output_text ''no space''
              then [InstNote TipDiskSpace]
         else [])"

definition install_body :: "env \<Rightarrow> string \<Rightarrow> wstate \<Rightarrow> bool outcome \<times> wstate" where
  "install_body e package_path s0 =
     (let cmd = [''pacman'', ''-U'', ''--noconfirm'', ''--needed'', package_path];
          s1 = emit (InstNote (RunningSudo cmd)) s0
      in case run_sudo_command e cmd s1 of
           (Raises err, s2) \<Rightarrow> (Raises err, s2)
         | (Hangs, s2) \<Rightarrow> (Hangs, s2)
         | (Returns None, s2) \<Rightarrow> (Returns False, emit (InstNote InstCouldNotStart) s2)
         | (Returns (Some p), s2) \<Rightarrow>
             (case stream_install (steps p) (remaining p) of
                ((as, output_lines), None) \<Rightarrow> (Hangs, acts as s2)
              | ((as, output_lines), Some return_code) \<Rightarrow>
                  (let s3 = (acts as s2)\<lparr>fs := effect p (fs s2)\<rparr>
                   in if return_code = 0 then (Returns True, emit (InstNote PackageInstalled) s3)
                      else (Returns False,
                            emits (InstNote (InstallFailedCode return_code) # failure_tip output_lines) s3))))"

definition install_arch_package :: "env \<Rightarrow> string \<Rightarrow> wstate \<Rightarrow> bool outcome \<times> wstate" where
  "install_arch_package e package_path s0 =
     (case install_body e package_path s0 of
        (Raises err, s1) \<Rightarrow> (Returns False, emit (InstNote (InstException err)) s1)
      | r \<Rightarrow> r)"

section \<open>\<open>InstallWorker.run\<close>\<close>

text \<open>
  \<open>tempfile.mkdtemp(prefix="deb_installer_")\<close> creates a directory under the
  temporary directory and returns its path.
\<close>

definition mkdtemp :: "env \<Rightarrow> error + string" where
  "mkdtemp e =
     (case mkdtemp_name e of
        Inl err \<Rightarrow> Inl err
      | Inr name \<Rightarrow> Inr (path_join (mkdtemp_dir e) (''deb_installer_'' @ name)))"

text \<open>
  \<open>shutil.rmtree(path, ignore_errors)\<close>: removes the directory and what is below it.
  When the directory is not there, or the removal fails, it raises unless
  \<open>ignore_errors\<close> is set.
\<close>

definition rmtree :: "string \<Rightarrow> bool \<Rightarrow> bool \<Rightarrow> fsys \<Rightarrow> error + fsys" where
  "rmtree path ignore_errors fails f =
     (if f path = None \<or> fails
      then (if ignore_errors then Inr f else Inl (OtherError ''rmtree''))
      else Inr (\<lambda>q. if q = path \<or> prefix (path @ ''/'') q then None else f q))"

text \<open>The \<open>finally\<close> block (lines 199 to 204).\<close>

definition cleanup :: "env \<Rightarrow> wstate \<Rightarrow> unit outcome \<times> wstate" where
  "cleanup e s =
     (case temp_dir s of
        None \<Rightarrow> (Returns (), s)
      | Some d \<Rightarrow>
          if d \<noteq> [] \<and> fs s d \<noteq> None then
            (let s1 = act (Rmtree d) (emit (RunNote CleaningUp) s)
             in case rmtree d True (rmtree_fails e) (fs s1) of
                  Inl err \<Rightarrow> (Raises err, s1)
                | Inr f \<Rightarrow> (Returns (), emit (RunNote CleanupComplete) (s1\<lparr>fs := f\<rparr>)))
          else (Returns (), s))"

text \<open>Lines 156 to 193: the install step and the reports around it.\<close>

definition run_install :: "env \<Rightarrow> string \<Rightarrow> wstate \<Rightarrow> unit outcome \<times> wstate" where
  "run_install e arch_package s0 =
     (case getsize e arch_package of
        Inl err \<Rightarrow> (Raises err, s0)
      | Inr pkg_size \<Rightarrow>
          (let s1 = emits
                 [RunNote Dash50, RunNote ConversionCompleted,
                  RunNote (Generated (basename arch_package) pkg_size),
                  TimeUpdate ConversionCompletedNote, ProgressValue 70,
                  ProgressUpdate (InstallingPackage pkg_size), ProgressValue 75,
                  RunNote Rule50, RunNote Step4, RunNote Rule50,
                  RunNote (InstallingPkg (basename arch_package)), RunNote RunningPacman,
                  RunNote Dash50] s0
           in case install_arch_package e arch_package s1 of
                (Returns ok, s2) \<Rightarrow>
                  if ok then
                    (Returns (), emits
                       [RunNote Dash50, RunNote InstallationCompleted, RunNote SuccessRule,
                        RunNote Success, RunNote Rule50, RunNote TotalTime,
                        ProgressUpdate InstallationDone, ProgressValue 100,
                        TimeUpdate TotalTimeNote, Finished True InstalledMsg] s2)
                  else
                    (Returns (), emits
                       [RunNote Dash50, RunNote InstallationFailedAfter,
                        Finished False InstallFailedMsg] s2)
              | (Hangs, s2) \<Rightarrow> (Hangs, s2)
              | (Raises err, s2) \<Rightarrow> (Raises err, s2)))"

text \<open>Lines 115 to 154: the workspace, the copy and the conversion.\<close>

definition run_convert :: "env \<Rightarrow> nat \<Rightarrow> wstate \<Rightarrow> unit outcome \<times> wstate" where
  "run_convert e bytes s0 =
     (let s1 = emits
            [RunNote DebtapReady, TimeUpdate CheckCompleted,
             ProgressUpdate PreparingWorkspace, ProgressValue 10,
             RunNote Rule50, RunNote Step2, RunNote Rule50] s0
      in case mkdtemp e of
           Inl err \<Rightarrow> (Raises err, s1)
         | Inr d \<Rightarrow>
             (let s2 = emits
                    [RunNote (WorkingDirectory d), ProgressUpdate CopyingPackageFile,
                     ProgressValue 15]
                    (s1\<lparr>temp_dir := Some d, fs := (fs s1)(d \<mapsto> [])\<rparr>);
                  deb_filename = basename (deb_file_path s2);
                  temp_deb_path = path_join d deb_filename
              in case copy2 e of
                   Some err \<Rightarrow> (Raises err, s2)
                 | None \<Rightarrow>
                     (let s3 = emits
                            [RunNote FileCopied, TimeUpdate FileCopiedNote,
                             ProgressUpdate (ConvertingPackage (conversion_time bytes)),
                             ProgressValue 20, RunNote Rule50, RunNote Step3, RunNote Rule50,
                             RunNote (ConvertingPkg deb_filename),
                             RunNote (RunningDebtap deb_filename), RunNote Dash50]
                            (s2\<lparr>fs := (fs s2)(d \<mapsto> [deb_filename])\<rparr>)
                      in case convert_deb_package e temp_deb_path s3 of
                           (Returns None, s4) \<Rightarrow>
                             (Returns (), emits
                                [RunNote ConversionFailedAfter, Finished False ConvertFailedMsg] s4)
                         | (Returns (Some arch_package), s4) \<Rightarrow>
                             if arch_package = [] then
                               (Returns (), emits
                                  [RunNote ConversionFailedAfter, Finished False ConvertFailedMsg] s4)
                             else run_install e arch_package s4
                         | (Hangs, s4) \<Rightarrow> (Hangs, s4)
                         | (Raises err, s4) \<Rightarrow> (Raises err, s4))))"

text \<open>Lines 87 to 113: the estimates and the check for the converter.\<close>

definition run_body :: "env \<Rightarrow> wstate \<Rightarrow> unit outcome \<times> wstate" where
  "run_body e s0 =
     (case getsize e (deb_file_path s0) of
        Inl err \<Rightarrow> (Raises err, s0)
      | Inr bytes \<Rightarrow>
          (let s1 = emits
                 [RunNote (PackageName (basename (deb_file_path s0))),
                  RunNote (PackageSize bytes),
                  RunNote (EstimatedTime (total_estimated bytes)),
                  TimeUpdate (EstimatedTimeNote (total_estimated bytes)),
                  ProgressUpdate CheckingForDebtap, ProgressValue 5,
                  RunNote Rule50, RunNote Step1, RunNote Rule50] s0
           in case check_debtap e s1 of
                (Returns ok, s2) \<Rightarrow>
                  if ok then run_convert e bytes s2
                  else (Returns (), emits
                          [RunNote DebtapSetupFailed, Finished False SetupFailedMsg] s2)
              | (Hangs, s2) \<Rightarrow> (Hangs, s2)
              | (Raises err, s2) \<Rightarrow> (Raises err, s2)))"

text \<open>
  The \<open>try\<close> with its handler, lines 86 to 198: state and outcome when control
  reaches the \<open>finally\<close> block.
\<close>

definition run_try :: "env \<Rightarrow> wstate \<Rightarrow> unit outcome \<times> wstate" where
  "run_try e s0 =
     (case run_body e s0 of
        (Raises err, s1) \<Rightarrow>
          (Returns (), emits [RunNote (ErrorAfter err), Finished False (ErrorMsg err)] s1)
      | r \<Rightarrow> r)"

definition run :: "env \<Rightarrow> wstate \<Rightarrow> unit outcome \<times> wstate" where
  "run e s0 =
     (case run_try e s0 of
        (Hangs, s1) \<Rightarrow> (Hangs, s1)
      | (r, s1) \<Rightarrow> cleanup e s1)"

section \<open>\<open>DebInstallerGUI.get_sudo_password\<close>\<close>

datatype callback = GetSudoPassword | ConfirmAndInstall | SelectFile

datatype message_box =
    InvalidPassword | AuthenticationFailedSudo | IncorrectPassword | PermissionDenied
  | AuthenticationFailed string | AuthenticationError error | AccessRequired

datatype gui_notice =
    Validating | ValidationSuccessful | AccessConfirmed | FailedToExecute
  | AuthFailedNote string | AuthErrorNote error

datatype gui_action =
    Append gui_notice | Popen "string list" | Communicate string | Box message_box
  | SingleShot callback | Quit

datatype dialog_result = Accepted string | Rejected

text \<open>
  A probe is a child started with \<open>Popen\<close> and awaited with \<open>communicate\<close>: either one
  of the two calls raises, or the child ends with its output, error text and exit status.
\<close>

record gui_env =
  probe_validate :: "error + string \<times> string \<times> int"
  probe_whoami :: "error + string \<times> string \<times> int"

record gui =
  gui_deb_file_path :: "string option"
  gui_sudo_password :: "string option"
  gui_trace :: "gui_action list"

definition gdo :: "gui_action list \<Rightarrow> gui \<Rightarrow> gui" where
  "gdo as g = g\<lparr>gui_trace := gui_trace g @ as\<rparr>"

text \<open>Lines 669 to 686: the first probe ended with a non-zero status.\<close>

definition authentication_failed :: "string \<Rightarrow> gui \<Rightarrow> gui" where
  "authentication_failed stderr g =
     (let error_msg = (if stderr \<noteq> [] then strip stderr else ''Unknown error'');
          g1 = gdo [Append (AuthFailedNote error_msg)] g
      in if contains (lower error_msg) ''incorrect password'' \<or> contains (lower error_msg) ''sorry''
         then gdo [Box IncorrectPassword, SingleShot GetSudoPassword] g1
         else if contains (lower error_msg) ''not in the sudoers file''
         then gdo [Box PermissionDenied, Quit] g1
         else gdo [Box (AuthenticationFailed error_msg), SingleShot GetSudoPassword] g1)"

text \<open>
  Lines 643 to 667: the second probe, run after the first ended with status zero. An
  exception leaves through the first component.
\<close>

definition confirm_access :: "gui_env \<Rightarrow> string \<Rightarrow> gui \<Rightarrow> error option \<times> gui" where
  "confirm_access e pw g =
     (let g1 = gdo [Append ValidationSuccessful, Popen [''sudo'', ''-S'', ''whoami'']] g
      in case probe_whoami e of
           Inl err \<Rightarrow> (Some err, g1)
         | Inr (test_stdout, test_stderr, rc) \<Rightarrow>
             (let g2 = gdo [Communicate (pw @ [NL])] g1
              in if rc = 0 \<and> contains test_stdout ''root'' then
                   (None, gdo [Append AccessConfirmed,
                               SingleShot (if gui_deb_file_path g2 \<noteq> None \<and>
                                              gui_deb_file_path g2 \<noteq> Some []
                                           then ConfirmAndInstall else SelectFile)] g2)
                 else
                   (None, gdo [Append FailedToExecute, Box AuthenticationFailedSudo,
                               SingleShot GetSudoPassword] g2)))"

text \<open>Lines 630 to 686: the body of the \<open>try\<close>.\<close>

definition validate_password :: "gui_env \<Rightarrow> string \<Rightarrow> gui \<Rightarrow> error option \<times> gui" where
  "validate_password e pw g =
     (let g1 = gdo [Popen [''sudo'', ''-S'', ''-v'']] g
      in case probe_validate e of
           Inl err \<Rightarrow> (Some err, g1)
         | Inr (out, stderr, rc) \<Rightarrow>
             (let g2 = gdo [Communicate (pw @ [NL])] g1
              in if rc = 0 then confirm_access e pw g2
                 else (None, authentication_failed stderr g2)))"

definition get_sudo_password :: "gui_env \<Rightarrow> dialog_result \<Rightarrow> gui \<Rightarrow> gui" where
  "get_sudo_password e dialog g =
     (case dialog of
        Rejected \<Rightarrow> gdo [Box AccessRequired, Quit] g
      | Accepted pw \<Rightarrow>
          (let g1 = gdo [Append Validating] (g\<lparr>gui_sudo_password := Some pw\<rparr>)
           in if strip pw = [] then gdo [Box InvalidPassword, SingleShot GetSudoPassword] g1
              else
                (case validate_password e pw g1 of
                   (None, g2) \<Rightarrow> g2
                 | (Some err, g2) \<Rightarrow>
                     gdo [Append (AuthErrorNote err), Box (AuthenticationError err),
                          SingleShot GetSudoPassword] g2)))"

text \<open>
  The validation succeeded when the call scheduled the continuation of the flow
  (\<open>confirm_and_install\<close> or \<open>select_file\<close>) among the actions it added.
\<close>

definition validated :: "gui \<Rightarrow> gui \<Rightarrow> bool" where
  "validated g g' =
     list_ex (\<lambda>a. a = SingleShot ConfirmAndInstall \<or> a = SingleShot SelectFile)
       (drop (length (gui_trace g)) (gui_trace g'))"

definition spawned :: "gui \<Rightarrow> gui \<Rightarrow> string list list" where
  "spawned g g' = concat (map (\<lambda>a. case a of Popen argv \<Rightarrow> [argv] | _ \<Rightarrow> [])
                            (drop (length (gui_trace g)) (gui_trace g')))"

section \<open>Notions used to state the properties\<close>

text \<open>The texts sent on \<open>console_output\<close> that come from a child or a listing, in order.\<close>

fun line_of :: "action \<Rightarrow> string list" where
  "line_of (Emit (ConsoleLine t)) = [t]"
| "line_of a = []"

definition console_lines :: "action list \<Rightarrow> string list" where
  "console_lines as = concat (map line_of as)"

text \<open>
  The words of the specification for the converter installer. \<open>launch\<close> is the child
  that \<open>run_sudo_command\<close> hands back, when it starts one and feeds it the password;
  \<open>exit_status\<close> is the first exit status the reading loop sees, if any. A candidate is
  skipped when its executable is not found, fails when its install cannot be started, ends
  with a non-zero status or leaves the converter missing, is stuck when its install is
  never seen to exit, and has installed the converter otherwise.
\<close>

datatype attempt = Skipped | Failed | Stuck | Installed

definition launch :: "env \<Rightarrow> string option \<Rightarrow> string list \<Rightarrow> proc option" where
  "launch e pw cmd =
     (case pw of
        None \<Rightarrow> None
      | Some w \<Rightarrow>
          if w = [] then None
          else (case popen e ([''sudo'', ''-S''] @ cmd) of
                  Inl err \<Rightarrow> None
                | Inr p \<Rightarrow> (case pw_write p of Some err \<Rightarrow> None | None \<Rightarrow> Some p)))"

definition exit_status :: "proc \<Rightarrow> int option" where
  "exit_status p =
     (case dropWhile (\<lambda>step. snd (snd step) = None) (steps p) of
        [] \<Rightarrow> None
      | step # _ \<Rightarrow> snd (snd step))"

definition attempt_of :: "env \<Rightarrow> string option \<Rightarrow> string list \<times> string \<Rightarrow> attempt" where
  "attempt_of e pw m =
     (case m of (cmd, name) \<Rightarrow>
        (case cmd of
           [] \<Rightarrow> Skipped
         | exe # _ \<Rightarrow>
             if which_mgr e exe \<noteq> Inr 0 then Skipped
             else (case launch e pw cmd of
                     None \<Rightarrow> Failed
                   | Some p \<Rightarrow>
                       (case exit_status p of
                          None \<Rightarrow> Stuck
                        | Some rc \<Rightarrow>
                            if rc = 0 \<and> which_verify e name = Inr 0 then Installed else Failed))))"

definition refresh_stuck :: "env \<Rightarrow> string option \<Rightarrow> bool" where
  "refresh_stuck e pw =
     (case launch e pw [''debtap'', ''-u''] of None \<Rightarrow> False | Some p \<Rightarrow> exit_status p = None)"

text \<open>
  The result the specification gives for a list of candidates: the first candidate that
  is neither skipped nor failed decides; with none, the installer fails.
\<close>

definition first_installing :: "env \<Rightarrow> string option \<Rightarrow> (string list \<times> string) list \<Rightarrow> bool outcome" where
  "first_installing e pw ms =
     (case dropWhile (\<lambda>m. attempt_of e pw m = Skipped \<or> attempt_of e pw m = Failed) ms of
        [] \<Rightarrow> Returns False
      | m # _ \<Rightarrow>
          if attempt_of e pw m = Stuck \<or> refresh_stuck e pw then Hangs else Returns True)"

text \<open>
  What \<open>convert_deb_package\<close> does up to \<open>communicate\<close>: the note with the package
  name, the start of the converter, and the three answers written to its input.
\<close>

definition answers :: "string \<Rightarrow> string" where
  "answers path = hd (split_chr (CHR ''_'') (basename path)) @ [NL, NL, NL]"

definition started :: "string \<Rightarrow> action list" where
  "started path =
     [Emit (ConvNote (DetectedName (hd (split_chr (CHR ''_'') (basename path))))),
      Exec [''debtap'', ''-Q'', basename path], Stdin (answers path)]"

text \<open>
  The iterations a reading loop runs: the steps up to and including the first one whose
  poll is an exit status; and whether there is such a step.
\<close>

definition seen :: "(string \<times> bool \<times> int option) list \<Rightarrow> (string \<times> bool \<times> int option) list" where
  "seen st = takeWhile (\<lambda>step. snd (snd step) = None) st @
             take 1 (dropWhile (\<lambda>step. snd (snd step) = None) st)"

definition exited :: "(string \<times> bool \<times> int option) list \<Rightarrow> bool" where
  "exited st = (dropWhile (\<lambda>step. snd (snd step) = None) st \<noteq> [])"

section \<open>Concrete runs\<close>

text \<open>
  A fresh worker for \<open>myapp_1.0_amd64.deb\<close> (10 MB) on a machine without the converter,
  where \<open>paru\<close> is the only backend manager: the install of the converter, the refresh
  of its database, the conversion and the install of the package all succeed. The first
  line of each privileged child carries the password prompt, which has no newline of its
  own.
\<close>

definition demo_state :: wstate where
  "demo_state = \<lparr>deb_file_path = ''/home/u/myapp_1.0_amd64.deb'', sudo_password = Some ''secret'',
     temp_dir = None, cwd = ''/home/u'',
     fs = [''/home/u'' \<mapsto> [''myapp_1.0_amd64.deb''], ''/tmp'' \<mapsto> []], trace = []\<rparr>"

definition paru_proc :: proc where
  "paru_proc = \<lparr>pw_write = None,
     steps = [(''[sudo] password for u: resolving dependencies...'' @ [NL], True, None),
              (''installing debtap...  '' @ [NL], True, Some 0)],
     remaining = ''Password cache kept'' @ [NL] @ ''done'' @ [NL],
     effect = (\<lambda>f. f)\<rparr>"

definition update_proc :: proc where
  "update_proc = \<lparr>pw_write = None,
     steps = [(''[sudo] password for u: '' @ [NL], True, None), (''updating database'' @ [NL], True, Some 0)],
     remaining = [], effect = (\<lambda>f. f)\<rparr>"

definition pacman_proc :: proc where
  "pacman_proc = \<lparr>pw_write = None,
     steps = [(''[sudo] password for u: loading packages...'' @ [NL], True, None),
              ('':: Proceed with installation? [Y/n] '' @ [NL], True, None),
              (''installing myapp...'' @ [NL], True, Some 0)],
     remaining = [], effect = (\<lambda>f. f)\<rparr>"

definition demo_debtap :: conv_child where
  "demo_debtap = \<lparr>spawn_error = None, comm_error = None, finishes_after = Some 12,
     stdout = ''==> Extracting package data...'' @ [NL] @ ''Generating package'' @ [NL],
     returncode = 0,
     changes = (\<lambda>f. f(''/tmp/deb_installer_ab12'' \<mapsto>
                  [''myapp_1.0_amd64.deb'', ''myapp-1.0-1-x86_64.pkg.tar.zst'']))\<rparr>"

definition demo_env :: env where
  "demo_env = \<lparr>getsize = (\<lambda>p. Inr 10485760),
     which_debtap = Inr 1,
     which_mgr = (\<lambda>m. if m = ''paru'' then Inr 0 else Inr 1),
     which_verify = (\<lambda>m. Inr 0),
     which_diag = (\<lambda>m. Inr 1),
     popen = (\<lambda>argv.
        if argv = [''sudo'', ''-S'', ''paru'', ''-S'', ''--noconfirm'', ''debtap''] then Inr paru_proc
        else if argv = [''sudo'', ''-S'', ''debtap'', ''-u''] then Inr update_proc
        else if argv = [''sudo'', ''-S'', ''pacman'', ''-U'', ''--noconfirm'', ''--needed'',
                        ''/tmp/deb_installer_ab12/myapp-1.0-1-x86_64.pkg.tar.zst'']
        then Inr pacman_proc
        else Inl (OtherError ''FileNotFoundError'')),
     mkdtemp_dir = ''/tmp'', mkdtemp_name = Inr ''ab12'', copy2 = None,
     debtap_run = demo_debtap, rmtree_fails = False\<rparr>"

text \<open>
  Variations: the converter is present and the copy fails; the converter needs 301
  seconds; the converter ends with status zero and leaves no package. \<open>work_state\<close> is
  the worker once its working directory exists.
\<close>

definition full_disk_env :: env where
  "full_disk_env =
     demo_env\<lparr>which_debtap := Inr 0, copy2 := Some (OtherError ''No space left on device'')\<rparr>"

definition slow_env :: env where
  "slow_env = demo_env\<lparr>debtap_run := demo_debtap\<lparr>finishes_after := Some 301\<rparr>\<rparr>"

definition no_package_env :: env where
  "no_package_env =
     demo_env\<lparr>debtap_run := demo_debtap\<lparr>changes :=
       (\<lambda>f. f(''/tmp/deb_installer_ab12'' \<mapsto> [''myapp_1.0_amd64.deb'', ''build.log'']))\<rparr>\<rparr>"

definition work_state :: wstate where
  "work_state =
     demo_state\<lparr>temp_dir := Some ''/tmp/deb_installer_ab12'',
                 fs := (fs demo_state)(''/tmp/deb_installer_ab12'' \<mapsto> [''myapp_1.0_amd64.deb''])\<rparr>"

text \<open>A GUI session whose two privilege probes succeed.\<close>

definition demo_gui_env :: gui_env where
  "demo_gui_env = \<lparr>probe_validate = Inr ([], [], 0), probe_whoami = Inr (''root'' @ [NL], [], 0)\<rparr>"

definition demo_gui :: gui where
  "demo_gui = \<lparr>gui_deb_file_path = Some ''/home/u/myapp_1.0_amd64.deb'',
                gui_sudo_password = None, gui_trace = []\<rparr>"

section \<open>Facts about the string operations\<close>

lemma split_chr_not_Nil: "split_chr c s \<noteq> []"
  by (induction s) (auto split: list.splits)

lemma lower_append: "lower (a @ b) = lower a @ lower b"
  by (simp add: lower_def)

lemma rstrip_prefix: "prefix (rstrip s) s"
proof -
  have "rev s = takeWhile is_space (rev s) @ dropWhile is_space (rev s)"
    by simp
  then have "s = rev (dropWhile is_space (rev s)) @ rev (takeWhile is_space (rev s))"
    by (metis rev_append rev_rev_ident)
  then show ?thesis
    unfolding rstrip_def by (metis prefixI)
qed

lemma lower_prefix: "prefix a b \<Longrightarrow> prefix (lower a) (lower b)"
  by (auto simp: prefix_def lower_append)

lemma contains_prefix: "prefix a b \<Longrightarrow> contains a n \<Longrightarrow> contains b n"
  unfolding contains_def
  by (metis sublist_order.order.trans prefix_imp_sublist)

lemma contains_rstrip: "contains (lower (rstrip s)) n \<Longrightarrow> contains (lower s) n"
  using contains_prefix lower_prefix rstrip_prefix by blast

lemma contains_indent:
  "contains (lower (CHR '' '' # CHR '' '' # s)) ''password'' \<Longrightarrow> contains (lower s) ''password''"
  by (simp add: contains_def lower_def lower_char_def sublist_Cons_right)

lemma suffix_last: "suffix n (ys @ [c]) \<Longrightarrow> n \<noteq> [] \<Longrightarrow> last n = c"
proof -
  assume "suffix n (ys @ [c])" and "n \<noteq> []"
  then obtain zs where "ys @ [c] = zs @ n" by (auto simp: suffix_def)
  with \<open>n \<noteq> []\<close> show ?thesis by (metis last_appendR last_snoc)
qed

lemma sublist_drop_spaces:
  "sublist n (a @ b) \<Longrightarrow> \<forall>c \<in> set b. is_space c \<Longrightarrow> n \<noteq> [] \<Longrightarrow> \<not> is_space (last n) \<Longrightarrow>
   sublist n a"
proof (induction b rule: rev_induct)
  case Nil
  then show ?case by simp
next
  case (snoc c b)
  from snoc.prems(1) sublist_snoc [of n "a @ b" c]
  have "suffix n ((a @ b) @ [c]) \<or> sublist n (a @ b)"
    by simp
  then show ?case
  proof
    assume "suffix n ((a @ b) @ [c])"
    then have "last n = c"
      using snoc.prems(3) by (rule suffix_last)
    with snoc.prems(2,4) show ?thesis by simp
  next
    assume "sublist n (a @ b)"
    with snoc show ?thesis by simp
  qed
qed

lemma rstrip_decompose: "\<exists>sp. line = rstrip line @ sp \<and> (\<forall>c \<in> set sp. is_space c)"
proof -
  have "rev line = takeWhile is_space (rev line) @ dropWhile is_space (rev line)"
    by simp
  then have "line = rstrip line @ rev (takeWhile is_space (rev line))"
    unfolding rstrip_def by (metis rev_append rev_rev_ident)
  moreover have "\<forall>c \<in> set (rev (takeWhile is_space (rev line))). is_space c"
    by (auto dest: set_takeWhileD)
  ultimately show ?thesis by blast
qed

lemma lower_char_space: "is_space c \<Longrightarrow> lower_char c = c"
  by (simp add: is_space_def lower_char_def) linarith

lemma contains_rstrip_word:
  assumes "contains (lower line) n" and "n \<noteq> []" and "\<not> is_space (last n)"
  shows "contains (lower (rstrip line)) n"
proof -
  from rstrip_decompose obtain sp where sp: "line = rstrip line @ sp" "\<forall>c \<in> set sp. is_space c"
    by blast
  from sp(2) have spaces: "\<forall>c \<in> set (lower sp). is_space c"
    by (auto simp: lower_def lower_char_space)
  from assms(1) sp(1) have "sublist n (lower (rstrip line) @ lower sp)"
    by (metis contains_def lower_append)
  from sublist_drop_spaces [OF this spaces assms(2,3)] show ?thesis
    by (simp add: contains_def)
qed

lemma password_survives_rstrip:
  "contains (lower line) ''password'' \<Longrightarrow> contains (lower (rstrip line)) ''password''"
  by (rule contains_rstrip_word) (simp_all add: is_space_def)

lemma password_not_blank:
  assumes "contains (lower line) ''password''"
  shows "strip line \<noteq> []"
proof
  assume blank: "strip line = []"
  from assms have "contains (lower (rstrip line)) ''password''"
    by (rule password_survives_rstrip)
  then have "set ''password'' \<subseteq> set (lower (rstrip line))"
    unfolding contains_def by (rule set_mono_sublist)
  then have "CHR ''p'' \<in> set (lower (rstrip line))"
    by simp
  then obtain c where c: "c \<in> set (rstrip line)" "lower_char c = CHR ''p''"
    by (auto simp: lower_def)
  from blank have "\<forall>c \<in> set (rstrip line). is_space c"
    by (simp add: strip_def dropWhile_eq_Nil_conv)
  with c have "is_space (CHR ''p'')"
    by (metis lower_char_space)
  then show False
    by (simp add: is_space_def)
qed

lemma is_prompt_rstrip: "is_prompt (rstrip line) = is_prompt line"
proof -
  have "contains (lower (rstrip line)) n = contains (lower line) n"
    if "n \<in> set confirmation_phrases" for n
  proof -
    from that have "n \<noteq> []" "\<not> is_space (last n)"
      by (auto simp: confirmation_phrases_def is_space_def)
    then show ?thesis
      using contains_rstrip_word contains_rstrip by blast
  qed
  then show ?thesis
    by (auto simp: is_prompt_def list_ex_iff)
qed

section \<open>Facts about the rounding of the size\<close>

lemma excess_bits_small: "n < 2 ^ 53 \<Longrightarrow> excess_bits n = 0"
  by (simp add: excess_bits.simps [of n])

lemma round53_small: "n < 2 ^ 53 \<Longrightarrow> round53 n = n"
  by (simp add: round53_def excess_bits_small)

section \<open>Unfolding the model on concrete inputs\<close>

lemmas string_defs =
  rstrip_def strip_def is_space_def lower_def lower_char_def contains_def startswith_def
  endswith_def split_lines_def basename_def path_join_def sublist_Cons_right
  suffix_to_prefix

lemmas effect_defs = emit_def emits_def act_def acts_def Let_def

lemmas debtap_defs =
  install_debtap_def package_managers_def try_manager_def run_sudo_command_def verify_install_def
  update_database_def redacted_line_def redacted_rest_def report_manager_def error_with_def
  check_debtap_def

lemmas convert_defs =
  convert_deb_package_def convert_body_def await_converter_def find_package_def getcwd_def
  chdir_def listdir_def communicate_def converter_lines_def is_package_file_def

lemmas install_defs =
  install_arch_package_def install_body_def answered_line_def install_rest_def is_prompt_def
  confirmation_phrases_def failure_tip_def

lemmas run_defs =
  run_def run_try_def run_body_def run_convert_def run_install_def cleanup_def rmtree_def
  mkdtemp_def conversion_time_def install_time_def total_estimated_def py_int_def file_size_mb_def
  round53_small

lemmas demo_defs =
  demo_env_def demo_state_def paru_proc_def update_proc_def pacman_proc_def demo_debtap_def
  work_state_def

section \<open>The trace and the fields of the worker\<close>

lemma trace_act [simp]: "trace (act a s) = trace s @ [a]"
  by (simp add: act_def)

lemma trace_acts [simp]: "trace (acts as s) = trace s @ as"
  by (simp add: acts_def)

lemma trace_emit [simp]: "trace (emit ev s) = trace s @ [Emit ev]"
  by (simp add: emit_def)

lemma trace_emits [simp]: "trace (emits evs s) = trace s @ map Emit evs"
  by (simp add: emits_def)

lemma frame_act [simp]:
  "sudo_password (act a s) = sudo_password s" "temp_dir (act a s) = temp_dir s"
  "fs (act a s) = fs s" "cwd (act a s) = cwd s" "deb_file_path (act a s) = deb_file_path s"
  by (simp_all add: act_def)

lemma frame_acts [simp]:
  "sudo_password (acts as s) = sudo_password s" "temp_dir (acts as s) = temp_dir s"
  "fs (acts as s) = fs s" "cwd (acts as s) = cwd s" "deb_file_path (acts as s) = deb_file_path s"
  by (simp_all add: acts_def)

lemma frame_emit [simp]:
  "sudo_password (emit a s) = sudo_password s" "temp_dir (emit a s) = temp_dir s"
  "fs (emit a s) = fs s" "cwd (emit a s) = cwd s" "deb_file_path (emit a s) = deb_file_path s"
  by (simp_all add: emit_def)

lemma frame_emits [simp]:
  "sudo_password (emits as s) = sudo_password s" "temp_dir (emits as s) = temp_dir s"
  "fs (emits as s) = fs s" "cwd (emits as s) = cwd s" "deb_file_path (emits as s) = deb_file_path s"
  by (simp_all add: emits_def)

lemma console_lines_append [simp]: "console_lines (a @ b) = console_lines a @ console_lines b"
  by (simp add: console_lines_def)

lemma console_lines_Nil [simp]: "console_lines [] = []"
  by (simp add: console_lines_def)

lemma console_lines_Cons [simp]: "console_lines (a # as) = line_of a @ console_lines as"
  by (simp add: console_lines_def)

lemma seen_simps [simp]:
  "seen [] = []"
  "seen ((line, w, None) # later) = (line, w, None) # seen later"
  "seen ((line, w, Some rc) # later) = [(line, w, Some rc)]"
  by (simp_all add: seen_def)

lemma exited_simps [simp]:
  "exited [] = False"
  "exited ((line, w, None) # later) = exited later"
  "exited ((line, w, Some rc) # later) = True"
  by (simp_all add: exited_def)

section \<open>C2: the time estimates\<close>

lemma round53_large: "round53 9007199255265279 = 9007199255265280"
proof -
  have "excess_bits 9007199255265279 = Suc (excess_bits 4503599627632639)"
    by (subst excess_bits.simps) simp
  also have "excess_bits 4503599627632639 = 0"
    by (rule excess_bits_small) simp
  finally show ?thesis
    by (simp add: round53_def)
qed

text \<open>
  C2, as stated, fails: for a file of 5505024 bytes the size is 5.25 MB and the conversion
  estimate is 10, while \<open>max(10, 2 \<sqdot> S)\<close> is 10.5, which is not an integer either.
\<close>

theorem time_estimates_not_linear:
  "file_size_mb 5505024 = 5.25 \<and> conversion_time 5505024 = 10 \<and>
   real_of_int (conversion_time 5505024) \<noteq> max 10 (2 * file_size_mb 5505024)"
  by (simp add: conversion_time_def py_int_def file_size_mb_def round53_small)

text \<open>
  C2, amended: for a file below \<open>2 ^ 53\<close> bytes the float of line 88 is the exact size
  \<open>S\<close> in MB, the conversion estimate is \<open>max(10, floor(2 \<sqdot> S))\<close> and the install
  estimate is \<open>max(5, floor(S / 2))\<close>. For every size that \<open>st_size\<close> can hold the same
  equations hold with the float in the place of \<open>S\<close>, the float being the byte count
  rounded to 53 significant bits over \<open>2 ^ 20\<close>; both estimates are integers, at least 10
  and at least 5.
\<close>

theorem time_estimates_truncated:
  "(bytes < 2 ^ 53 \<longrightarrow>
      file_size_mb bytes = real bytes / 2 ^ 20 \<and>
      conversion_time bytes = max 10 \<lfloor>2 * (real bytes / 2 ^ 20)\<rfloor> \<and>
      install_time bytes = max 5 \<lfloor>real bytes / 2 ^ 20 / 2\<rfloor>) \<and>
   (bytes < 2 ^ 63 \<longrightarrow>
      file_size_mb bytes = real (round53 bytes) / 2 ^ 20 \<and>
      conversion_time bytes = max 10 \<lfloor>2 * file_size_mb bytes\<rfloor> \<and>
      install_time bytes = max 5 \<lfloor>file_size_mb bytes / 2\<rfloor> \<and>
      10 \<le> conversion_time bytes \<and> 5 \<le> install_time bytes)"
  by (simp add: conversion_time_def install_time_def py_int_def file_size_mb_def round53_small
      mult.commute)

text \<open>
  Witness for C2: files of 5.25 MB and of 20 MB, and a file of 9007199255265279 bytes,
  where the division rounds up to 8589934592.5 MB and the conversion estimate is
  17179869185.
\<close>

theorem time_estimates_truncated_witness:
  "conversion_time 5505024 = 10 \<and> install_time 5505024 = 5 \<and>
   conversion_time 20971520 = 40 \<and> install_time 20971520 = 10 \<and>
   file_size_mb 9007199255265279 = 8589934592.5 \<and>
   conversion_time 9007199255265279 = 17179869185"
proof -
  have big: "file_size_mb 9007199255265279 = 8589934592.5"
    by (simp add: file_size_mb_def round53_large)
  from time_estimates_truncated [of 9007199255265279]
  have "conversion_time 9007199255265279 = max 10 \<lfloor>2 * file_size_mb 9007199255265279\<rfloor>"
    by simp
  then have "conversion_time 9007199255265279 = 17179869185"
    unfolding big by simp
  moreover from time_estimates_truncated [of 5505024]
  have "conversion_time 5505024 = 10 \<and> install_time 5505024 = 5"
    by simp
  moreover from time_estimates_truncated [of 20971520]
  have "conversion_time 20971520 = 40 \<and> install_time 20971520 = 10"
    by simp
  ultimately show ?thesis
    using big by blast
qed

section \<open>C3: password lines of the converter installer\<close>

lemma run_sudo_console:
  "run_sudo_command e cmd s = (r, s') \<Longrightarrow> console_lines (trace s') = console_lines (trace s)"
  by (auto simp: run_sudo_command_def Let_def split: option.splits sum.splits if_splits)

lemma redacted_line_clean:
  "t \<in> set (console_lines (redacted_line line)) \<Longrightarrow> \<not> contains (lower t) ''password''"
  by (auto simp: redacted_line_def Let_def dest: contains_indent split: if_splits)

lemma redacted_rest_clean:
  "t \<in> set (console_lines (redacted_rest rest)) \<Longrightarrow> \<not> contains (lower t) ''password''"
  by (auto simp: redacted_rest_def console_lines_def dest!: contains_indent contains_rstrip split: if_splits)

lemma stream_redacted_clean:
  "stream_redacted st rest = (as, r) \<Longrightarrow> t \<in> set (console_lines as) \<Longrightarrow>
   \<not> contains (lower t) ''password''"
proof (induction st rest arbitrary: as r rule: stream_redacted.induct)
  case (1 rest)
  then show ?case by simp
next
  case (2 line w later rest)
  then show ?case
    by (auto simp: redacted_line_clean split: prod.splits)
next
  case (3 line w rc later rest)
  then show ?case
    by (auto simp: redacted_line_clean redacted_rest_clean)
qed

lemma update_database_clean:
  "update_database e s = (r, s') \<Longrightarrow> t \<in> set (console_lines (trace s')) \<Longrightarrow>
   t \<in> set (console_lines (trace s)) \<or> \<not> contains (lower t) ''password''"
  by (auto simp: update_database_def Let_def dest!: run_sudo_console dest: stream_redacted_clean
      split: prod.splits outcome.splits option.splits if_splits)

lemma verify_install_clean:
  "verify_install e n s = (r, s') \<Longrightarrow> t \<in> set (console_lines (trace s')) \<Longrightarrow>
   t \<in> set (console_lines (trace s)) \<or> \<not> contains (lower t) ''password''"
  by (auto simp: verify_install_def Let_def error_with_def dest!: update_database_clean
      split: prod.splits outcome.splits option.splits if_splits sum.splits)

lemma try_manager_clean:
  "try_manager e m s = (r, s') \<Longrightarrow> t \<in> set (console_lines (trace s')) \<Longrightarrow>
   t \<in> set (console_lines (trace s)) \<or> \<not> contains (lower t) ''password''"
  by (auto simp: try_manager_def Let_def error_with_def dest!: run_sudo_console verify_install_clean
      dest: stream_redacted_clean
      split: prod.splits outcome.splits option.splits if_splits sum.splits list.splits)

lemma try_managers_clean:
  "try_managers e ms s = (r, s') \<Longrightarrow> t \<in> set (console_lines (trace s')) \<Longrightarrow>
   t \<in> set (console_lines (trace s)) \<or> \<not> contains (lower t) ''password''"
proof (induction ms arbitrary: s)
  case Nil
  then show ?case by simp
next
  case (Cons m ms)
  obtain r1 s1 where m: "try_manager e m s = (r1, s1)"
    by (cases "try_manager e m s")
  show ?case
  proof (cases "r1 = Returns None")
    case True
    with Cons.prems m have "try_managers e ms s1 = (r, s')" by simp
    from Cons.IH [OF this Cons.prems(2)] try_manager_clean [OF m] show ?thesis by blast
  next
    case False
    with Cons.prems m have "s' = s1"
      by (auto split: outcome.splits option.splits)
    with try_manager_clean [OF m] Cons.prems(2) show ?thesis by blast
  qed
qed

lemma report_manager_console:
  "console_lines (trace (report_manager e m s)) = console_lines (trace s)"
  by (auto simp: report_manager_def Let_def split: prod.splits list.splits sum.splits)

lemma report_managers_console:
  "console_lines (trace (fold (report_manager e) ms s)) = console_lines (trace s)"
  by (induction ms arbitrary: s) (simp_all add: report_manager_console)

text \<open>
  C3: whatever the backend manager and the database refresh write, neither reading loop of
  \<open>install_debtap\<close> puts a line containing "password" (in any case) on the log channel;
  and when no such line was on the channel before \<open>install_debtap\<close>, none is on it
  afterwards.
\<close>

theorem install_debtap_redacts_password:
  "(\<forall>t \<in> set (console_lines (fst (stream_redacted st rest))). \<not> contains (lower t) ''password'') \<and>
   ((\<forall>t \<in> set (console_lines (trace s)). \<not> contains (lower t) ''password'') \<longrightarrow>
    (\<forall>t \<in> set (console_lines (trace (snd (install_debtap e s)))).
       \<not> contains (lower t) ''password''))"
proof -
  have "\<not> contains (lower t) ''password''"
    if "t \<in> set (console_lines (fst (stream_redacted st rest)))" for t
    using that stream_redacted_clean [of st rest "fst (stream_redacted st rest)" "snd (stream_redacted st rest)" t]
    by simp
  moreover have "\<not> contains (lower t) ''password''"
    if "\<forall>t \<in> set (console_lines (trace s)). \<not> contains (lower t) ''password''"
      and "t \<in> set (console_lines (trace (snd (install_debtap e s))))" for t
  proof -
    obtain r s1 where tm: "try_managers e package_managers (emit (DebtapNote AutoInstalling) s) = (r, s1)"
      by (cases "try_managers e package_managers (emit (DebtapNote AutoInstalling) s)")
    from that(2) tm have "t \<in> set (console_lines (trace s1))"
      by (auto simp: install_debtap_def report_managers_console split: outcome.splits option.splits)
    from try_managers_clean [OF tm this] that(1) show ?thesis
      by auto
  qed
  ultimately show ?thesis by blast
qed

text \<open>
  Witness for C3: in the concrete run the manager's first line (with the prompt) and the
  line "Password cache kept" are dropped, and three lines reach the channel.
\<close>

theorem install_debtap_redacts_password_witness:
  "console_lines (trace (snd (install_debtap demo_env demo_state))) =
     [''  installing debtap...'', ''  done'', ''  updating database''] \<and>
   list_all (\<lambda>t. \<not> contains (lower t) ''password'')
     (console_lines (trace (snd (install_debtap demo_env demo_state)))) \<and>
   list_all (\<lambda>t. \<not> contains (lower t) ''password'')
     (console_lines (fst (stream_redacted (steps paru_proc) (remaining paru_proc))))"
proof -
  have "\<forall>t \<in> set (console_lines (trace demo_state)). \<not> contains (lower t) ''password''"
    by (simp add: demo_defs)
  with install_debtap_redacts_password [of "steps paru_proc" "remaining paru_proc" demo_state demo_env]
  have "list_all (\<lambda>t. \<not> contains (lower t) ''password'')
          (console_lines (trace (snd (install_debtap demo_env demo_state)))) \<and>
        list_all (\<lambda>t. \<not> contains (lower t) ''password'')
          (console_lines (fst (stream_redacted (steps paru_proc) (remaining paru_proc))))"
    by (simp add: list_all_iff)
  moreover have "console_lines (trace (snd (install_debtap demo_env demo_state))) =
     [''  installing debtap...'', ''  done'', ''  updating database'']"
    by (simp add: debtap_defs demo_defs string_defs effect_defs)
  ultimately show ?thesis by blast
qed

section \<open>C5: the first backend manager that installs the converter\<close>

lemma stream_redacted_exit: "snd (stream_redacted st rest) = exit_status \<lparr>pw_write = x, steps = st, remaining = rest, effect = f\<rparr>"
  by (induction st rest rule: stream_redacted.induct) (auto simp: exit_status_def split: prod.splits)

lemma stream_redacted_exit':
  "stream_redacted (steps p) (remaining p) = (as, r) \<Longrightarrow> exit_status p = r"
  using stream_redacted_exit [of "steps p" "remaining p" "pw_write p" "effect p"]
  by (simp add: exit_status_def)

lemma run_sudo_launch:
  "run_sudo_command e cmd s = (r, s') \<Longrightarrow>
   sudo_password s' = sudo_password s \<and>
   (case launch e (sudo_password s) cmd of
      Some p \<Rightarrow> r = Returns (Some p)
    | None \<Rightarrow> r = Returns None \<or> (\<exists>err. r = Raises err))"
  by (auto simp: run_sudo_command_def launch_def Let_def split: option.splits sum.splits if_splits)

lemma update_database_result:
  "update_database e s = (r, s') \<Longrightarrow>
   sudo_password s' = sudo_password s \<and>
   r = (if refresh_stuck e (sudo_password s) then Hangs else Returns True)"
  by (auto simp: update_database_def refresh_stuck_def Let_def
      dest!: run_sudo_launch stream_redacted_exit'
      split: prod.splits outcome.splits option.splits if_splits)

lemma verify_install_result:
  "verify_install e n s = (r, s') \<Longrightarrow>
   sudo_password s' = sudo_password s \<and>
   r = (if which_verify e n = Inr 0
        then (if refresh_stuck e (sudo_password s) then Hangs else Returns (Some True))
        else Returns None)"
  by (auto simp: verify_install_def error_with_def Let_def
      dest!: update_database_result
      split: prod.splits outcome.splits option.splits if_splits sum.splits)

lemma try_manager_result:
  "try_manager e m s = (r, s') \<Longrightarrow>
   sudo_password s' = sudo_password s \<and>
   r = (case attempt_of e (sudo_password s) m of
          Skipped \<Rightarrow> Returns None
        | Failed \<Rightarrow> Returns None
        | Stuck \<Rightarrow> Hangs
        | Installed \<Rightarrow> if refresh_stuck e (sudo_password s) then Hangs else Returns (Some True))"
  by (auto simp: try_manager_def attempt_of_def error_with_def Let_def
      dest!: run_sudo_launch stream_redacted_exit' verify_install_result
      split: prod.splits outcome.splits option.splits if_splits sum.splits list.splits)

lemma try_managers_result:
  "try_managers e ms s = (r, s') \<Longrightarrow> sudo_password s = pw \<Longrightarrow>
   r = (case dropWhile (\<lambda>m. attempt_of e pw m = Skipped \<or> attempt_of e pw m = Failed) ms of
          [] \<Rightarrow> Returns None
        | m # _ \<Rightarrow>
            if attempt_of e pw m = Stuck \<or> refresh_stuck e pw then Hangs
            else Returns (Some True))"
proof (induction ms arbitrary: s)
  case Nil
  then show ?case by simp
next
  case (Cons m ms)
  obtain r1 s1 where m: "try_manager e m s = (r1, s1)"
    by (cases "try_manager e m s")
  from try_manager_result [OF m] Cons.prems(2)
  have pw: "sudo_password s1 = pw"
    and r1: "r1 = (case attempt_of e pw m of
                     Skipped \<Rightarrow> Returns None
                   | Failed \<Rightarrow> Returns None
                   | Stuck \<Rightarrow> Hangs
                   | Installed \<Rightarrow> if refresh_stuck e pw then Hangs else Returns (Some True))"
    by simp_all
  show ?case
  proof (cases "attempt_of e pw m")
    case Skipped
    with r1 Cons.prems(1) m have "try_managers e ms s1 = (r, s')" by simp
    from Cons.IH [OF this pw] Skipped show ?thesis by simp
  next
    case Failed
    with r1 Cons.prems(1) m have "try_managers e ms s1 = (r, s')" by simp
    from Cons.IH [OF this pw] Failed show ?thesis by simp
  next
    case Stuck
    with r1 Cons.prems(1) m show ?thesis by auto
  next
    case Installed
    with r1 Cons.prems(1) m show ?thesis by (auto split: if_splits)
  qed
qed

text \<open>
  C5: \<open>install_debtap\<close> goes through yay, paru and pamac in this order and returns what
  the specification says: success at the first candidate that is found, whose install ends
  with status zero and after which the converter is found; failure when every candidate
  is skipped or fails. It does not return when the deciding install, or the database
  refresh after it, is never seen to exit. A candidate whose executable is not found is
  passed over without starting anything else.
\<close>

theorem install_debtap_first_success:
  "fst (install_debtap e s) = first_installing e (sudo_password s) package_managers \<and>
   map snd package_managers = [''yay'', ''paru'', ''pamac''] \<and>
   (\<forall>rc. which_mgr e exe = Inr rc \<and> rc \<noteq> 0 \<longrightarrow>
      try_manager e (exe # args, name) s = (Returns None, act (Exec [''which'', exe]) s))"
proof -
  let ?pw = "sudo_password s"
  let ?skip = "\<lambda>m. attempt_of e ?pw m = Skipped \<or> attempt_of e ?pw m = Failed"
  obtain r s1 where tm: "try_managers e package_managers (emit (DebtapNote AutoInstalling) s) = (r, s1)"
    by (cases "try_managers e package_managers (emit (DebtapNote AutoInstalling) s)")
  have pw: "sudo_password (emit (DebtapNote AutoInstalling) s) = ?pw"
    by simp
  define d where "d = dropWhile ?skip package_managers"
  from try_managers_result [OF tm pw]
  have r: "r = (case d of
                  [] \<Rightarrow> Returns None
                | m # _ \<Rightarrow>
                    if attempt_of e ?pw m = Stuck \<or> refresh_stuck e ?pw
                    then Hangs else Returns (Some True))"
    unfolding d_def .
  have spec: "first_installing e ?pw package_managers =
                (case d of
                   [] \<Rightarrow> Returns False
                 | m # _ \<Rightarrow>
                     if attempt_of e ?pw m = Stuck \<or> refresh_stuck e ?pw
                     then Hangs else Returns True)"
    unfolding d_def first_installing_def ..
  have "fst (install_debtap e s) =
          (case r of Returns (Some b) \<Rightarrow> Returns b | Returns None \<Rightarrow> Returns False
           | Hangs \<Rightarrow> Hangs | Raises err \<Rightarrow> Raises err)"
    by (simp add: install_debtap_def tm split: outcome.splits option.splits)
  then have "fst (install_debtap e s) = first_installing e ?pw package_managers"
    unfolding r spec by (cases d) simp_all
  moreover have "map snd package_managers = [''yay'', ''paru'', ''pamac'']"
    by (simp add: package_managers_def)
  moreover have "\<forall>rc. which_mgr e exe = Inr rc \<and> rc \<noteq> 0 \<longrightarrow>
      try_manager e (exe # args, name) s = (Returns None, act (Exec [''which'', exe]) s)"
    by (simp add: try_manager_def)
  ultimately show ?thesis by blast
qed

text \<open>
  Witness for C5: yay is absent and passed over, paru installs the converter.
\<close>

theorem install_debtap_first_success_witness:
  "fst (install_debtap demo_env demo_state) = Returns True \<and>
   try_manager demo_env ([''yay'', ''-S'', ''--noconfirm'', ''debtap''], ''yay'') demo_state =
     (Returns None, act (Exec [''which'', ''yay'']) demo_state)"
  using install_debtap_first_success [of demo_env demo_state "''yay''"
      "[''-S'', ''--noconfirm'', ''debtap'']" "''yay''"]
  by (simp add: first_installing_def attempt_of_def launch_def exit_status_def refresh_stuck_def
      package_managers_def demo_defs)

section \<open>C1: the working directory is removed\<close>

lemma run_sudo_temp_dir: "run_sudo_command e cmd s = (r, s') \<Longrightarrow> temp_dir s' = temp_dir s"
  by (auto simp: run_sudo_command_def Let_def split: option.splits sum.splits if_splits)

lemma update_database_temp_dir: "update_database e s = (r, s') \<Longrightarrow> temp_dir s' = temp_dir s"
  by (auto simp: update_database_def Let_def dest!: run_sudo_temp_dir
      split: prod.splits outcome.splits option.splits if_splits)

lemma verify_install_temp_dir: "verify_install e n s = (r, s') \<Longrightarrow> temp_dir s' = temp_dir s"
  by (auto simp: verify_install_def error_with_def Let_def dest!: update_database_temp_dir
      split: prod.splits outcome.splits option.splits if_splits sum.splits)

lemma try_manager_temp_dir: "try_manager e m s = (r, s') \<Longrightarrow> temp_dir s' = temp_dir s"
  by (auto simp: try_manager_def error_with_def Let_def dest!: run_sudo_temp_dir verify_install_temp_dir
      split: prod.splits outcome.splits option.splits if_splits sum.splits list.splits)

lemma try_managers_temp_dir: "try_managers e ms s = (r, s') \<Longrightarrow> temp_dir s' = temp_dir s"
proof (induction ms arbitrary: s)
  case Nil
  then show ?case by simp
next
  case (Cons m ms)
  obtain r1 s1 where m: "try_manager e m s = (r1, s1)"
    by (cases "try_manager e m s")
  show ?case
  proof (cases "r1 = Returns None")
    case True
    with Cons.prems m have "try_managers e ms s1 = (r, s')" by simp
    from Cons.IH [OF this] try_manager_temp_dir [OF m] show ?thesis by simp
  next
    case False
    with Cons.prems m have "s' = s1"
      by (auto split: outcome.splits option.splits)
    with try_manager_temp_dir [OF m] show ?thesis by simp
  qed
qed

lemma report_manager_temp_dir [simp]: "temp_dir (report_manager e m s) = temp_dir s"
  by (auto simp: report_manager_def Let_def split: prod.splits list.splits sum.splits)

lemma report_managers_temp_dir [simp]: "temp_dir (fold (report_manager e) ms s) = temp_dir s"
  by (induction ms arbitrary: s) simp_all

lemma install_debtap_temp_dir: "install_debtap e s = (r, s') \<Longrightarrow> temp_dir s' = temp_dir s"
  by (auto simp: install_debtap_def dest!: try_managers_temp_dir
      split: prod.splits outcome.splits option.splits)

lemma check_debtap_temp_dir: "check_debtap e s = (r, s') \<Longrightarrow> temp_dir s' = temp_dir s"
  by (auto simp: check_debtap_def Let_def dest!: install_debtap_temp_dir
      split: prod.splits outcome.splits option.splits sum.splits if_splits)

lemma find_package_temp_dir: "find_package s = (r, s') \<Longrightarrow> temp_dir s' = temp_dir s"
  by (auto simp: find_package_def Let_def split: sum.splits list.splits option.splits)

lemma await_converter_temp_dir: "await_converter e oc da s = (r, s') \<Longrightarrow> temp_dir s' = temp_dir s"
  by (auto simp: await_converter_def Let_def chdir_def dest!: find_package_temp_dir
      split: sum.splits error.splits prod.splits if_splits)

lemma convert_body_temp_dir: "convert_body e p s = (r, s') \<Longrightarrow> temp_dir s' = temp_dir s"
  by (auto simp: convert_body_def Let_def chdir_def dest!: await_converter_temp_dir
      split: sum.splits option.splits if_splits)

lemma convert_deb_package_temp_dir: "convert_deb_package e p s = (r, s') \<Longrightarrow> temp_dir s' = temp_dir s"
  by (auto simp: convert_deb_package_def dest!: convert_body_temp_dir split: prod.splits outcome.splits)

lemma install_body_temp_dir: "install_body e p s = (r, s') \<Longrightarrow> temp_dir s' = temp_dir s"
  by (auto simp: install_body_def Let_def dest!: run_sudo_temp_dir
      split: prod.splits outcome.splits option.splits if_splits)

lemma install_arch_package_temp_dir: "install_arch_package e p s = (r, s') \<Longrightarrow> temp_dir s' = temp_dir s"
  by (auto simp: install_arch_package_def dest!: install_body_temp_dir split: prod.splits outcome.splits)

lemma run_install_temp_dir: "run_install e p s = (r, s') \<Longrightarrow> temp_dir s' = temp_dir s"
  by (auto simp: run_install_def Let_def dest!: install_arch_package_temp_dir
      split: sum.splits prod.splits outcome.splits if_splits)

lemma path_join_not_Nil: "b \<noteq> [] \<Longrightarrow> path_join a b \<noteq> []"
  by (simp add: path_join_def)

lemma mkdtemp_not_Nil: "mkdtemp e = Inr d \<Longrightarrow> d \<noteq> []"
  by (auto simp: mkdtemp_def path_join_not_Nil split: sum.splits)

lemma run_convert_temp_dir:
  "run_convert e b s = (r, s') \<Longrightarrow> temp_dir s' = temp_dir s \<or> (\<exists>d. temp_dir s' = Some d \<and> d \<noteq> [])"
  by (auto simp: run_convert_def Let_def
      dest!: convert_deb_package_temp_dir run_install_temp_dir mkdtemp_not_Nil
      split: sum.splits prod.splits outcome.splits option.splits if_splits)

lemma run_body_temp_dir:
  "run_body e s = (r, s') \<Longrightarrow> temp_dir s' = temp_dir s \<or> (\<exists>d. temp_dir s' = Some d \<and> d \<noteq> [])"
  by (auto simp: run_body_def Let_def
      dest!: check_debtap_temp_dir run_convert_temp_dir
      split: sum.splits prod.splits outcome.splits option.splits if_splits)

lemma run_try_temp_dir:
  "run_try e s = (r, s') \<Longrightarrow> temp_dir s' = temp_dir s \<or> (\<exists>d. temp_dir s' = Some d \<and> d \<noteq> [])"
  by (auto simp: run_try_def dest!: run_body_temp_dir
      split: prod.splits outcome.splits)

lemma cleanup_returns: "fst (cleanup e s) = Returns ()"
  by (simp add: cleanup_def rmtree_def Let_def split: option.splits)

lemma cleanup_removes:
  "temp_dir s = Some d \<Longrightarrow> d \<noteq> [] \<Longrightarrow> fs s d \<noteq> None \<Longrightarrow>
   trace (snd (cleanup e s)) = trace s @ [Emit (RunNote CleaningUp), Rmtree d, Emit (RunNote CleanupComplete)] \<and>
   temp_dir (snd (cleanup e s)) = Some d \<and>
   (\<not> rmtree_fails e \<longrightarrow> fs (snd (cleanup e s)) d = None)"
  by (auto simp: cleanup_def rmtree_def Let_def)

lemma cleanup_nothing:
  "temp_dir s = None \<or> (\<exists>d. temp_dir s = Some d \<and> fs s d = None) \<Longrightarrow> cleanup e s = (Returns (), s)"
  by (auto simp: cleanup_def)

text \<open>
  C1: take a fresh worker and any run whose \<open>try\<close> part ends (by a return, a failed
  step or an exception). Then \<open>run\<close> returns normally, also when the removal fails; if
  a working directory was created and exists when the \<open>finally\<close> block is reached, the
  block removes it (announcing the cleanup, calling \<open>rmtree\<close> on it once and announcing
  the end), and the directory is gone afterwards unless \<open>rmtree\<close> itself failed, in
  which case the error is swallowed; running the cleanup again does not raise, and after a
  removal it changes nothing.
\<close>

theorem working_directory_removed:
  assumes "temp_dir s0 = None" and "run_try e s0 = (r, s1)" and "r \<noteq> Hangs"
  shows "fst (run e s0) = Returns () \<and>
         (\<forall>d. temp_dir s1 = Some d \<and> fs s1 d \<noteq> None \<longrightarrow>
            trace (snd (run e s0)) =
              trace s1 @ [Emit (RunNote CleaningUp), Rmtree d, Emit (RunNote CleanupComplete)] \<and>
            (\<not> rmtree_fails e \<longrightarrow> fs (snd (run e s0)) d = None)) \<and>
         fst (cleanup e (snd (run e s0))) = Returns () \<and>
         (\<not> rmtree_fails e \<longrightarrow> cleanup e (snd (run e s0)) = (Returns (), snd (run e s0)))"
proof -
  from assms(2,3) have run: "run e s0 = cleanup e s1"
    by (simp add: run_def split: outcome.splits)
  from run_try_temp_dir [OF assms(2)] assms(1)
  have td: "temp_dir s1 = None \<or> (\<exists>d. temp_dir s1 = Some d \<and> d \<noteq> [])"
    by auto
  have 1: "fst (run e s0) = Returns ()"
    by (simp add: run cleanup_returns)
  have 2: "\<forall>d. temp_dir s1 = Some d \<and> fs s1 d \<noteq> None \<longrightarrow>
            trace (snd (run e s0)) =
              trace s1 @ [Emit (RunNote CleaningUp), Rmtree d, Emit (RunNote CleanupComplete)] \<and>
            (\<not> rmtree_fails e \<longrightarrow> fs (snd (run e s0)) d = None)"
    using td cleanup_removes [of s1 _ e] by (auto simp: run)
  have 3: "fst (cleanup e (snd (run e s0))) = Returns ()"
    by (rule cleanup_returns)
  have 4: "\<not> rmtree_fails e \<longrightarrow> cleanup e (snd (run e s0)) = (Returns (), snd (run e s0))"
  proof
    assume nf: "\<not> rmtree_fails e"
    show "cleanup e (snd (run e s0)) = (Returns (), snd (run e s0))"
    proof (cases "\<exists>d. temp_dir s1 = Some d \<and> fs s1 d \<noteq> None")
      case True
      then obtain d where d: "temp_dir s1 = Some d" "fs s1 d \<noteq> None" by blast
      with td have "d \<noteq> []" by auto
      from cleanup_removes [OF d(1) this d(2), of e] nf
      have "temp_dir (snd (cleanup e s1)) = Some d" "fs (snd (cleanup e s1)) d = None"
        by simp_all
      then show ?thesis
        unfolding run by (intro cleanup_nothing) simp
    next
      case False
      then have "cleanup e s1 = (Returns (), s1)"
        by (intro cleanup_nothing) (cases "temp_dir s1"; simp)
      then show ?thesis
        by (simp add: run)
    qed
  qed
  from 1 2 3 4 show ?thesis by blast
qed

text \<open>
  Witness for C1: the run that installs the package, and the run whose copy fails with an
  exception; both end with the working directory removed.
\<close>

theorem working_directory_removed_witness:
  "fst (run demo_env demo_state) = Returns () \<and>
   Emit (Finished True InstalledMsg) \<in> set (trace (snd (run_try demo_env demo_state))) \<and>
   trace (snd (run demo_env demo_state)) =
     trace (snd (run_try demo_env demo_state)) @
     [Emit (RunNote CleaningUp), Rmtree ''/tmp/deb_installer_ab12'', Emit (RunNote CleanupComplete)] \<and>
   fs (snd (run demo_env demo_state)) ''/tmp/deb_installer_ab12'' = None \<and>
   cleanup demo_env (snd (run demo_env demo_state)) = (Returns (), snd (run demo_env demo_state)) \<and>
   fst (run full_disk_env demo_state) = Returns () \<and>
   fs (snd (run full_disk_env demo_state)) ''/tmp/deb_installer_ab12'' = None"
proof -
  have a: "fst (run_try demo_env demo_state) = Returns () \<and>
           temp_dir (snd (run_try demo_env demo_state)) = Some ''/tmp/deb_installer_ab12'' \<and>
           fs (snd (run_try demo_env demo_state)) ''/tmp/deb_installer_ab12'' \<noteq> None \<and>
           Emit (Finished True InstalledMsg) \<in> set (trace (snd (run_try demo_env demo_state)))"
    by (simp add: run_defs debtap_defs convert_defs install_defs demo_defs string_defs effect_defs)
  have b: "fst (run_try full_disk_env demo_state) = Returns () \<and>
           temp_dir (snd (run_try full_disk_env demo_state)) = Some ''/tmp/deb_installer_ab12'' \<and>
           fs (snd (run_try full_disk_env demo_state)) ''/tmp/deb_installer_ab12'' \<noteq> None"
    by (simp add: full_disk_env_def run_defs debtap_defs demo_defs string_defs effect_defs)
  have c: "temp_dir demo_state = None" "\<not> rmtree_fails demo_env" "\<not> rmtree_fails full_disk_env"
    by (simp_all add: full_disk_env_def demo_defs)
  have d: "run_try e s = (fst (run_try e s), snd (run_try e s))" for e s
    by simp
  from a have "fst (run_try demo_env demo_state) \<noteq> Hangs" by simp
  from working_directory_removed [OF c(1) d this] a c(2)
  have 1: "fst (run demo_env demo_state) = Returns () \<and>
   trace (snd (run demo_env demo_state)) =
     trace (snd (run_try demo_env demo_state)) @
     [Emit (RunNote CleaningUp), Rmtree ''/tmp/deb_installer_ab12'', Emit (RunNote CleanupComplete)] \<and>
   fs (snd (run demo_env demo_state)) ''/tmp/deb_installer_ab12'' = None \<and>
   cleanup demo_env (snd (run demo_env demo_state)) = (Returns (), snd (run demo_env demo_state))"
    by blast
  from b have "fst (run_try full_disk_env demo_state) \<noteq> Hangs" by simp
  from working_directory_removed [OF c(1) d this] b c(3)
  have 2: "fst (run full_disk_env demo_state) = Returns () \<and>
   fs (snd (run full_disk_env demo_state)) ''/tmp/deb_installer_ab12'' = None"
    by blast
  from 1 2 a show ?thesis by blast
qed

section \<open>C4, C6, C9: the conversion step\<close>

text \<open>
  C4: when the converter has not finished after 300 seconds, it is killed, the timeout is
  reported and \<open>convert_deb_package\<close> returns \<open>None\<close>; the converter was started once.
\<close>

theorem conversion_times_out:
  assumes "temp_dir s = Some d" and "fs s (cwd s) \<noteq> None" and "fs s d \<noteq> None"
    and "spawn_error (debtap_run e) = None" and "comm_error (debtap_run e) = None"
    and "finishes_after (debtap_run e) = None \<or> (\<exists>t. finishes_after (debtap_run e) = Some t \<and> 300 < t)"
  shows "fst (convert_deb_package e path s) = Returns None \<and>
         trace (snd (convert_deb_package e path s)) =
           trace s @ started path @ [Kill, Emit (ConvNote ConversionTimedOut)]"
  using assms
  by (auto simp: convert_deb_package_def convert_body_def await_converter_def getcwd_def chdir_def
      communicate_def started_def answers_def Let_def)

text \<open>Witness for C4: a converter that needs 301 seconds.\<close>

theorem conversion_times_out_witness:
  "fst (convert_deb_package slow_env ''/tmp/deb_installer_ab12/myapp_1.0_amd64.deb'' work_state) =
     Returns None \<and>
   trace (snd (convert_deb_package slow_env ''/tmp/deb_installer_ab12/myapp_1.0_amd64.deb'' work_state)) =
     [Emit (ConvNote (DetectedName ''myapp'')), Exec [''debtap'', ''-Q'', ''myapp_1.0_amd64.deb''],
      Stdin (''myapp'' @ [NL, NL, NL]), Kill, Emit (ConvNote ConversionTimedOut)]"
  using conversion_times_out [of work_state "''/tmp/deb_installer_ab12''" slow_env
      "''/tmp/deb_installer_ab12/myapp_1.0_amd64.deb''"]
  by (simp add: slow_env_def demo_defs started_def answers_def string_defs)

text \<open>
  C6: when the converter ends with status zero and the working directory holds no file
  with a package extension, \<open>convert_deb_package\<close> returns \<open>None\<close> after reporting
  that no package was generated and listing every file of the working directory.
\<close>

theorem conversion_without_package:
  assumes "temp_dir s = Some d" and "fs s (cwd s) \<noteq> None" and "fs s d \<noteq> None"
    and "spawn_error (debtap_run e) = None" and "comm_error (debtap_run e) = None"
    and "finishes_after (debtap_run e) = Some t" and "t \<le> 300"
    and "returncode (debtap_run e) = 0"
    and "changes (debtap_run e) (fs s) (cwd s) \<noteq> None"
    and "changes (debtap_run e) (fs s) d = Some files"
    and "filter is_package_file files = []"
  shows "fst (convert_deb_package e path s) = Returns None \<and>
         trace (snd (convert_deb_package e path s)) =
           trace s @ started path @ map Emit (converter_lines (stdout (debtap_run e))) @
           [Emit (ConvNote NoPackageGenerated), Emit (ConvNote FilesInTemp)] @
           map (\<lambda>file. Emit (ConsoleLine (''  - '' @ file))) files"
  using assms
  by (auto simp: convert_deb_package_def convert_body_def await_converter_def getcwd_def chdir_def
      communicate_def started_def answers_def find_package_def listdir_def Let_def comp_def)

text \<open>Witness for C6: the converter leaves the input and a log file.\<close>

theorem conversion_without_package_witness:
  "fst (convert_deb_package no_package_env ''/tmp/deb_installer_ab12/myapp_1.0_amd64.deb'' work_state) =
     Returns None \<and>
   trace (snd (convert_deb_package no_package_env ''/tmp/deb_installer_ab12/myapp_1.0_amd64.deb'' work_state)) =
     [Emit (ConvNote (DetectedName ''myapp'')), Exec [''debtap'', ''-Q'', ''myapp_1.0_amd64.deb''],
      Stdin (''myapp'' @ [NL, NL, NL]), Emit (ConsoleLine ''Generating package''),
      Emit (ConvNote NoPackageGenerated), Emit (ConvNote FilesInTemp),
      Emit (ConsoleLine ''  - myapp_1.0_amd64.deb''), Emit (ConsoleLine ''  - build.log'')]"
  using conversion_without_package [of work_state "''/tmp/deb_installer_ab12''" no_package_env 12
      "[''myapp_1.0_amd64.deb'', ''build.log'']" "''/tmp/deb_installer_ab12/myapp_1.0_amd64.deb''"]
  by (simp add: no_package_env_def demo_defs started_def answers_def string_defs
      converter_lines_def is_package_file_def)

text \<open>
  C9: once \<open>convert_deb_package\<close> has changed into the working directory, the process
  is back in the original directory at the end exactly when the converter was started,
  \<open>communicate\<close> returned and the way back succeeded; on the timeout and on an exception
  of the start or of \<open>communicate\<close> the function returns \<open>None\<close> with the process
  still in the working directory.
\<close>

theorem conversion_leaves_directory_changed:
  assumes "temp_dir s = Some d" and "fs s (cwd s) \<noteq> None" and "fs s d \<noteq> None"
  shows "cwd (snd (convert_deb_package e path s)) =
           (if spawn_error (debtap_run e) = None \<and> \<not> isl (communicate (debtap_run e) 300) \<and>
               changes (debtap_run e) (fs s) (cwd s) \<noteq> None
            then cwd s else d) \<and>
         (spawn_error (debtap_run e) \<noteq> None \<or> isl (communicate (debtap_run e) 300) \<longrightarrow>
            fst (convert_deb_package e path s) = Returns None)"
proof -
  have fp: "cwd (snd (find_package x)) = cwd x" for x
    by (auto simp: find_package_def Let_def split: sum.splits list.splits option.splits)
  have fp2: "cwd (snd (case find_package x of (Raises err, s1) \<Rightarrow>
                  (Returns None, emit (ConvNote (ConvException err)) s1) | r \<Rightarrow> r)) = cwd x" for x
    using fp [of x] by (auto split: prod.splits outcome.splits)
  show ?thesis
    using assms
    by (auto simp: convert_deb_package_def convert_body_def await_converter_def getcwd_def chdir_def
        Let_def fp2 split: sum.splits error.splits option.splits)
qed

text \<open>
  Witness for C9: after the timeout the process is in the working directory; after a
  conversion that ends it is back in the original one.
\<close>

theorem conversion_leaves_directory_changed_witness:
  "cwd work_state = ''/home/u'' \<and>
   fst (convert_deb_package slow_env ''/tmp/deb_installer_ab12/myapp_1.0_amd64.deb'' work_state) =
     Returns None \<and>
   cwd (snd (convert_deb_package slow_env ''/tmp/deb_installer_ab12/myapp_1.0_amd64.deb'' work_state)) =
     ''/tmp/deb_installer_ab12'' \<and>
   cwd (snd (convert_deb_package demo_env ''/tmp/deb_installer_ab12/myapp_1.0_amd64.deb'' work_state)) =
     ''/home/u''"
  using conversion_leaves_directory_changed [of work_state "''/tmp/deb_installer_ab12''" slow_env
      "''/tmp/deb_installer_ab12/myapp_1.0_amd64.deb''"]
    conversion_leaves_directory_changed [of work_state "''/tmp/deb_installer_ab12''" demo_env
      "''/tmp/deb_installer_ab12/myapp_1.0_amd64.deb''"]
  by (simp add: slow_env_def demo_defs communicate_def)

section \<open>C7, C10: the install step\<close>

text \<open>
  C7, as stated, fails. A prompt line that is still unread when the child exits is read
  by \<open>stdout.read()\<close> and logged, and nothing is written to the child; and when the
  write of the answer raises, the exception is swallowed and no note is emitted.
\<close>

theorem prompt_left_unanswered:
  "is_prompt '':: Proceed with installation? [Y/n]'' \<and>
   fst (fst (stream_install [(''loading packages...'' @ [NL], True, Some 0)]
                            ('':: Proceed with installation? [Y/n]'' @ [NL]))) =
     [Emit (ConsoleLine ''loading packages...''),
      Emit (ConsoleLine '':: Proceed with installation? [Y/n]'')] \<and>
   fst (answered_line ('':: Proceed with installation? [Y/n] '') False) =
     [Emit (ConsoleLine '':: Proceed with installation? [Y/n]'')]"
  by (simp add: answered_line_def install_rest_def is_prompt_def confirmation_phrases_def
      contains_def lower_def lower_char_def rstrip_def strip_def is_space_def split_lines_def
      sublist_Cons_right Let_def)

text \<open>
  C7, amended: the actions for a line returned by \<open>readline()\<close> come before everything
  the loop does afterwards. When the line contains one of the five phrases (in any case)
  and the write succeeds, they are: the line is logged, \<open>y\<close> and a newline are written
  once to the child's input, and the automatic answer is noted. When the write fails, the
  line is only logged. A line with none of the phrases triggers no write, and neither does
  the output read after the child's exit.
\<close>

theorem prompts_answered_in_loop:
  "fst (fst (stream_install ((line, w, None) # later) rest)) =
     fst (answered_line line w) @ fst (fst (stream_install later rest)) \<and>
   fst (fst (stream_install ((line, w, Some rc) # later) rest)) =
     fst (answered_line line w) @ fst (install_rest rest) \<and>
   (line \<noteq> [] \<and> is_prompt line \<and> w \<longrightarrow>
      fst (answered_line line w) =
        [Emit (ConsoleLine (rstrip line)), Stdin (''y'' @ [NL]), Emit (InstNote AutoAnswered)]) \<and>
   (line \<noteq> [] \<and> is_prompt line \<and> \<not> w \<longrightarrow>
      fst (answered_line line w) = [Emit (ConsoleLine (rstrip line))]) \<and>
   (\<not> is_prompt line \<longrightarrow> (\<forall>t. Stdin t \<notin> set (fst (answered_line line w)))) \<and>
   (\<forall>t. Stdin t \<notin> set (fst (install_rest rest)))"
  by (auto simp: answered_line_def install_rest_def Let_def is_prompt_rstrip split: prod.splits)

text \<open>Witness for C7: a prompt of the package manager, and a line that is no prompt.\<close>

theorem prompts_answered_in_loop_witness:
  "fst (answered_line ('':: Proceed with installation? [Y/n] '' @ [NL]) True) =
     [Emit (ConsoleLine '':: Proceed with installation? [Y/n]''), Stdin (''y'' @ [NL]),
      Emit (InstNote AutoAnswered)] \<and>
   Stdin (''y'' @ [NL]) \<notin> set (fst (answered_line (''installing myapp...'' @ [NL]) True))"
  using prompts_answered_in_loop [of "'':: Proceed with installation? [Y/n] '' @ [NL]" True "[]" "[]" 0]
    prompts_answered_in_loop [of "''installing myapp...'' @ [NL]" True "[]" "[]" 0]
  by (simp add: is_prompt_def confirmation_phrases_def string_defs)

lemma stream_install_lines:
  "console_lines (fst (fst (stream_install st rest))) =
     map rstrip (filter (\<lambda>line. line \<noteq> []) (map fst (seen st))) @
     (if exited st then map rstrip (filter (\<lambda>line. strip line \<noteq> []) (split_lines rest)) else [])"
proof (induction st rest rule: stream_install.induct)
  case (1 rest)
  then show ?case by simp
next
  case (2 line w later rest)
  then show ?case
    by (auto simp: answered_line_def Let_def split: prod.splits)
next
  case (3 line w rc later rest)
  have "console_lines (map (\<lambda>line. Emit (ConsoleLine (rstrip line))) ls) = map rstrip ls" for ls
    by (induction ls) simp_all
  moreover have "rest = [] \<Longrightarrow> filter (\<lambda>line. strip line \<noteq> []) (split_lines rest) = []"
    by (simp add: split_lines_def strip_def rstrip_def)
  ultimately show ?case
    by (auto simp: answered_line_def install_rest_def Let_def)
qed

lemma run_sudo_launched:
  "launch e (sudo_password s) cmd = Some p \<Longrightarrow>
   \<exists>pw. run_sudo_command e cmd s = (Returns (Some p), acts [Exec ([''sudo'', ''-S''] @ cmd), Stdin (pw @ [NL])] s)
       \<and> sudo_password s = Some pw"
  by (auto simp: run_sudo_command_def launch_def Let_def act_def acts_def split: option.splits sum.splits if_splits)

lemma failure_tip_lines: "console_lines (map Emit (failure_tip ls)) = []"
  by (simp add: failure_tip_def Let_def)

text \<open>
  C10: when the privileged install is started, the lines that \<open>install_arch_package\<close>
  puts on the log channel are exactly the non-empty lines it reads, each without its
  trailing white space, followed by the non-blank lines left after the exit: no line is
  held back for what it says. A line containing "password" is neither empty nor blank
  and still contains the word once its trailing white space is gone, so it is emitted.
\<close>

theorem install_output_not_redacted:
  assumes "launch e (sudo_password s) [''pacman'', ''-U'', ''--noconfirm'', ''--needed'', path] = Some p"
  shows "console_lines (trace (snd (install_arch_package e path s))) =
           console_lines (trace s) @
           map rstrip (filter (\<lambda>line. line \<noteq> []) (map fst (seen (steps p)))) @
           (if exited (steps p)
            then map rstrip (filter (\<lambda>line. strip line \<noteq> []) (split_lines (remaining p))) else []) \<and>
         (\<forall>line. contains (lower line) ''password'' \<longrightarrow>
            line \<noteq> [] \<and> strip line \<noteq> [] \<and> contains (lower (rstrip line)) ''password'')"
proof -
  let ?cmd = "[''pacman'', ''-U'', ''--noconfirm'', ''--needed'', path]"
  let ?s1 = "emit (InstNote (RunningSudo ?cmd)) s"
  have "launch e (sudo_password ?s1) ?cmd = Some p"
    using assms by simp
  from run_sudo_launched [OF this] obtain pw where
    rs: "run_sudo_command e ?cmd ?s1 =
           (Returns (Some p), acts [Exec ([''sudo'', ''-S''] @ ?cmd), Stdin (pw @ [NL])] ?s1)"
    by blast
  obtain as ls r where st: "stream_install (steps p) (remaining p) = ((as, ls), r)"
    by (metis prod.exhaust)
  have "console_lines (trace (snd (install_arch_package e path s))) =
          console_lines (trace s) @ console_lines as"
    using rs st
    by (cases r) (simp_all add: install_arch_package_def install_body_def Let_def failure_tip_lines)
  moreover have "console_lines as = console_lines (fst (fst (stream_install (steps p) (remaining p))))"
    by (simp add: st)
  ultimately have 1: "console_lines (trace (snd (install_arch_package e path s))) =
           console_lines (trace s) @
           map rstrip (filter (\<lambda>line. line \<noteq> []) (map fst (seen (steps p)))) @
           (if exited (steps p)
            then map rstrip (filter (\<lambda>line. strip line \<noteq> []) (split_lines (remaining p))) else [])"
    by (simp only: stream_install_lines)
  have 2: "\<forall>line. contains (lower line) ''password'' \<longrightarrow>
            line \<noteq> [] \<and> strip line \<noteq> [] \<and> contains (lower (rstrip line)) ''password''"
    using password_not_blank password_survives_rstrip
    by (auto simp: contains_def lower_def)
  from 1 2 show ?thesis by blast
qed

text \<open>
  Witness for C10: the first line of the install carries the password prompt of
  \<open>sudo\<close> and reaches the channel.
\<close>

theorem install_output_not_redacted_witness:
  "console_lines (trace (snd (install_arch_package demo_env
       ''/tmp/deb_installer_ab12/myapp-1.0-1-x86_64.pkg.tar.zst'' work_state))) =
     [''[sudo] password for u: loading packages...'', '':: Proceed with installation? [Y/n]'',
      ''installing myapp...''] \<and>
   contains (lower (rstrip (''[sudo] password for u: loading packages...'' @ [NL]))) ''password''"
  using install_output_not_redacted [of demo_env work_state
      "''/tmp/deb_installer_ab12/myapp-1.0-1-x86_64.pkg.tar.zst''" pacman_proc]
  by (simp add: launch_def demo_defs string_defs)

section \<open>C8: validation of the password\<close>

lemma gui_trace_gdo [simp]: "gui_trace (gdo as g) = gui_trace g @ as"
  by (simp add: gdo_def)

lemma gui_path_gdo [simp]: "gui_deb_file_path (gdo as g) = gui_deb_file_path g"
  by (simp add: gdo_def)

text \<open>
  C8: for a blank password \<open>get_sudo_password\<close> starts no process and the validation
  fails; for any other password the validation succeeds exactly when both probes end with
  status zero and the output of the identity probe contains "root".
\<close>

theorem credential_validation:
  "(strip pw = [] \<longrightarrow>
      spawned g (get_sudo_password e (Accepted pw) g) = [] \<and>
      \<not> validated g (get_sudo_password e (Accepted pw) g)) \<and>
   (strip pw \<noteq> [] \<longrightarrow>
      validated g (get_sudo_password e (Accepted pw) g) =
        (\<exists>out1 err1 out2 err2.
           probe_validate e = Inr (out1, err1, 0) \<and>
           probe_whoami e = Inr (out2, err2, 0) \<and> contains out2 ''root''))"
  by (auto simp: get_sudo_password_def validate_password_def confirm_access_def
      authentication_failed_def validated_def spawned_def Let_def
      split: sum.splits prod.splits option.splits)

text \<open>Witness for C8: a password that both probes accept, and a password of three spaces.\<close>

theorem credential_validation_witness:
  "validated demo_gui (get_sudo_password demo_gui_env (Accepted ''secret'') demo_gui) \<and>
   spawned demo_gui (get_sudo_password demo_gui_env (Accepted ''   '') demo_gui) = [] \<and>
   \<not> validated demo_gui (get_sudo_password demo_gui_env (Accepted ''   '') demo_gui)"
  using credential_validation [of "''secret''" demo_gui demo_gui_env]
    credential_validation [of "''   ''" demo_gui demo_gui_env]
  by (simp add: demo_gui_env_def demo_gui_def string_defs)

end
